theory Spec2Isabelle
  imports Main "HOL-Library.Sublist"
begin

section \<open>Python values used by gcal\_api.py\<close>

text \<open>
  Embedding of \<^verbatim>\<open>src/google/skills/google-calendar/scripts/gcal_api.py\<close>.
  Python strings are modelled as \<^typ>\<open>string\<close>. An optional command-line string
  (\<^verbatim>\<open>Optional[str]\<close>, \<^verbatim>\<open>None\<close> when the flag is not given) is a
  \<^typ>\<open>string option\<close>; Python treats both \<^verbatim>\<open>None\<close> and the empty string as false.
\<close>

definition truthy :: "string option \<Rightarrow> bool" where
  "truthy x = (case x of None \<Rightarrow> False | Some s \<Rightarrow> s \<noteq> [])"

definition str_of :: "string option \<Rightarrow> string" where
  "str_of x = (case x of None \<Rightarrow> [] | Some s \<Rightarrow> s)"

text \<open>\<^verbatim>\<open>s.startswith(p)\<close> and \<^verbatim>\<open>sub in s\<close> on strings.\<close>

fun startswith :: "string \<Rightarrow> string \<Rightarrow> bool" where
  "startswith s [] = True"
| "startswith [] (p # ps) = False"
| "startswith (c # cs) (p # ps) = (c = p \<and> startswith cs ps)"

fun contains :: "string \<Rightarrow> string \<Rightarrow> bool" where
  "contains [] sub = (sub = [])"
| "contains (c # cs) sub = (startswith (c # cs) sub \<or> contains cs sub)"

text \<open>\<^verbatim>\<open>s.split(sep)\<close> for a one-character separator: never an empty list.\<close>

fun split_sep :: "char \<Rightarrow> string \<Rightarrow> string list" where
  "split_sep sep [] = [[]]"
| "split_sep sep (c # cs) =
     (if c = sep then [] # split_sep sep cs
      else (case split_sep sep cs of
              [] \<Rightarrow> [[c]]
            | w # ws \<Rightarrow> (c # w) # ws))"

text \<open>
  JSON documents as Python holds them after \<^verbatim>\<open>json.loads\<close>: \<^verbatim>\<open>null\<close> is
  \<^verbatim>\<open>None\<close>, an object is a \<^verbatim>\<open>dict\<close> (keys in insertion order). Numbers are
  kept to the integers; no function below computes with them.
\<close>

datatype json =
    JNull
  | JBool bool
  | JNum int
  | JStr string
  | JArr "json list"
  | JObj "(string \<times> json) list"

type_synonym dict = "(string \<times> json) list"

text \<open>\<^verbatim>\<open>d[k] = v\<close>: replaces the value of a key that is there, appends a new key.\<close>

fun dict_set :: "dict \<Rightarrow> string \<Rightarrow> json \<Rightarrow> dict" where
  "dict_set [] k v = [(k, v)]"
| "dict_set ((k', v') # d) k v =
     (if k' = k then (k, v) # d else (k', v') # dict_set d k v)"

definition dict_get :: "dict \<Rightarrow> string \<Rightarrow> json option" where
  "dict_get d k = map_of d k"

definition dict_keys :: "dict \<Rightarrow> string list" where
  "dict_keys d = map fst d"

text \<open>Truth value of a Python object, as \<^verbatim>\<open>if not body\<close> reads it.\<close>

fun py_truthy :: "json \<Rightarrow> bool" where
  "py_truthy JNull = False"
| "py_truthy (JBool b) = b"
| "py_truthy (JNum n) = (n \<noteq> 0)"
| "py_truthy (JStr s) = (s \<noteq> [])"
| "py_truthy (JArr xs) = (xs \<noteq> [])"
| "py_truthy (JObj kvs) = (kvs \<noteq> [])"

section \<open>Errors, credentials, HTTP and the outside world\<close>

text \<open>
  Every \<^verbatim>\<open>raise\<close> of the source is a value. \<open>RuntimeError\<close> stands for
  \<^verbatim>\<open>RuntimeError(f"HTTP {status}: {json.dumps(payload, indent=2)}")\<close> and keeps the two
  values the message is rendered from. \<open>LibraryError\<close> is an exception raised inside a
  library call (JSON decoding, token refresh, the HTTP transport, reading a file).
\<close>

datatype error =
    ValueError string
  | FileNotFoundError string
  | RuntimeError int json
  | LibraryError string

text \<open>
  \<^verbatim>\<open>google.oauth2.credentials.Credentials\<close>: the source reads the attributes
  \<^verbatim>\<open>expired\<close> and \<^verbatim>\<open>refresh_token\<close> only.
\<close>

record credentials =
  access_token :: "string option"
  refresh_token :: "string option"
  expired :: bool

datatype session = AuthorizedSession credentials

record http_request =
  req_method :: string
  req_url :: string
  req_params :: json
  req_json :: json

text \<open>
  \<^verbatim>\<open>requests.Response\<close>: \<open>headers\<close> is the header lookup, \<open>response_text\<close> is
  \<^verbatim>\<open>response.text\<close> and \<open>response_json\<close> is what \<^verbatim>\<open>response.json()\<close> does
  (it raises on a body that is not JSON).
\<close>

record response =
  status_code :: int
  headers :: "string \<Rightarrow> string option"
  response_text :: string
  response_json :: "error + json"

text \<open>
  The world outside the process: the files on disk and the log of the network calls made
  so far (a token refresh at the identity provider, or an API request).
\<close>

datatype net_call = TokenRefresh credentials | ApiCall http_request

record world =
  files :: "string \<Rightarrow> string option"
  network :: "net_call list"

text \<open>
  The library functions the source calls, as parameters:
  \<open>resolve\<close> is \<^verbatim>\<open>pathlib.Path(p).expanduser().resolve()\<close>,
  \<open>from_authorized_user_file\<close> builds the credentials from the contents of the token file,
  \<open>refresh\<close> is \<^verbatim>\<open>creds.refresh(Request())\<close>, \<open>to_json\<close> is \<^verbatim>\<open>creds.to_json()\<close>,
  \<open>json_loads\<close> is \<^verbatim>\<open>json.loads\<close>, \<open>session_request\<close> is the answer of
  \<^verbatim>\<open>AuthorizedSession.request\<close> and \<open>str_upper\<close> is \<^verbatim>\<open>str.upper\<close> (Unicode case
  mapping, which can change the length of a string).
\<close>

record env =
  resolve :: "string \<Rightarrow> string"
  from_authorized_user_file :: "string \<Rightarrow> string list option \<Rightarrow> error + credentials"
  refresh :: "credentials \<Rightarrow> error + credentials"
  to_json :: "credentials \<Rightarrow> string"
  json_loads :: "string \<Rightarrow> error + json"
  session_request :: "session \<Rightarrow> http_request \<Rightarrow> error + response"
  str_upper :: "string \<Rightarrow> string"

definition CALENDAR_BASE_URL :: string where
  "CALENDAR_BASE_URL = ''https://www.googleapis.com/calendar/v3''"

section \<open>The functions of gcal\_api.py\<close>

text \<open>
  \<^verbatim>\<open>load_json_input\<close> (lines 18--26). The Python \<^verbatim>\<open>None\<close> it returns when no source
  is given is the value \<^verbatim>\<open>json.loads\<close> returns for the document \<^verbatim>\<open>null\<close>:
  \<^const>\<open>JNull\<close>. It reads the file, writes nothing and makes no network call.
\<close>

definition conflict_msg :: string where
  "conflict_msg = ''Use only one of --body/--params or --body-file/--params-file''"

definition load_json_input :: "env \<Rightarrow> world \<Rightarrow> string option \<Rightarrow> string option \<Rightarrow> error + json" where
  "load_json_input e w raw pth =
     (if truthy raw \<and> truthy pth then Inl (ValueError conflict_msg)
      else if truthy pth then
        (case files w (str_of pth) of
           None \<Rightarrow> Inl (FileNotFoundError (str_of pth))
         | Some txt \<Rightarrow> json_loads e txt)
      else if truthy raw then json_loads e (str_of raw)
      else Inr JNull)"

text \<open>\<^verbatim>\<open>load_credentials\<close> (lines 29--37) and \<^verbatim>\<open>session_from_token\<close> (lines 40--42).\<close>

definition load_credentials ::
  "env \<Rightarrow> string \<Rightarrow> string list option \<Rightarrow> world \<Rightarrow> (error + credentials) \<times> world" where
  "load_credentials e token_path scps w =
     (let resolved = resolve e token_path in
      case files w resolved of
        None \<Rightarrow> (Inl (FileNotFoundError resolved), w)
      | Some txt \<Rightarrow>
          (case from_authorized_user_file e txt scps of
             Inl err \<Rightarrow> (Inl err, w)
           | Inr creds \<Rightarrow>
               if expired creds \<and> truthy (refresh_token creds) then
                 (let w1 = w\<lparr>network := network w @ [TokenRefresh creds]\<rparr> in
                  case refresh e creds of
                    Inl err \<Rightarrow> (Inl err, w1)
                  | Inr creds' \<Rightarrow>
                      (Inr creds', w1\<lparr>files := (files w1)(resolved \<mapsto> to_json e creds')\<rparr>))
               else (Inr creds, w)))"

definition session_from_token ::
  "env \<Rightarrow> string \<Rightarrow> string list option \<Rightarrow> world \<Rightarrow> (error + session) \<times> world" where
  "session_from_token e token_path scps w =
     (case load_credentials e token_path scps w of
        (Inl err, w1) \<Rightarrow> (Inl err, w1)
      | (Inr creds, w1) \<Rightarrow> (Inr (AuthorizedSession creds), w1))"

text \<open>
  \<^verbatim>\<open>request\<close> (lines 45--75) in three parts: the URL (lines 53--58), the reading of
  the response (lines 61--75), and the call that joins them (line 60).
\<close>

definition normalized_path :: "string \<Rightarrow> string" where
  "normalized_path pth = (if \<not> startswith pth ''/'' then ''/'' @ pth else pth)"

definition request_url :: "string \<Rightarrow> string \<Rightarrow> string" where
  "request_url base_url pth =
     (if startswith pth ''http://'' \<or> startswith pth ''https://'' then pth
      else base_url @ normalized_path pth)"

definition content_type :: "response \<Rightarrow> string" where
  "content_type r = (case headers r ''Content-Type'' of None \<Rightarrow> [] | Some v \<Rightarrow> v)"

definition response_result :: "response \<Rightarrow> error + json" where
  "response_result r =
     (if status_code r \<ge> 400 then
        (if contains (content_type r) ''application/json'' then
           (case response_json r of
              Inl err \<Rightarrow> Inl err
            | Inr error_payload \<Rightarrow> Inl (RuntimeError (status_code r) error_payload))
         else Inl (RuntimeError (status_code r) (JObj [(''error'', JStr (response_text r))])))
      else if status_code r = 204 then Inr (JObj [(''status'', JStr ''deleted'')])
      else if contains (content_type r) ''application/json'' then response_json r
      else Inr (JObj [(''text'', JStr (response_text r))]))"

definition request ::
  "env \<Rightarrow> session \<Rightarrow> string \<Rightarrow> string \<Rightarrow> json \<Rightarrow> json \<Rightarrow> string \<Rightarrow> world
     \<Rightarrow> (error + json) \<times> world" where
  "request e sess meth pth prms bdy base_url w =
     (let call = \<lparr>req_method = meth, req_url = request_url base_url pth,
                   req_params = prms, req_json = bdy\<rparr>;
          w1 = w\<lparr>network := network w @ [ApiCall call]\<rparr>
      in case session_request e sess call of
           Inl err \<Rightarrow> (Inl err, w1)
         | Inr r \<Rightarrow> (response_result r, w1))"

text \<open>\<^verbatim>\<open>time_object\<close> (lines 78--84).\<close>

definition time_object :: "string \<Rightarrow> string option \<Rightarrow> dict" where
  "time_object v tz =
     (if contains v ''T'' then
        (let obj = [(''dateTime'', JStr v)] in
         if truthy tz \<and> (\<not> contains v ''Z'' \<and> \<not> contains v ''+'' \<and> \<not> contains (drop 10 v) ''-'')
         then dict_set obj ''timeZone'' (JStr (str_of tz))
         else obj)
      else [(''date'', JStr v)])"

text \<open>
  The \<^verbatim>\<open>argparse.Namespace\<close> of the commands \<^verbatim>\<open>call\<close>, \<^verbatim>\<open>create-event\<close> and
  \<^verbatim>\<open>update-event\<close> (\<^verbatim>\<open>build_parser\<close>): \<open>http_method\<close> is \<^verbatim>\<open>args.method\<close> and
  \<open>end_arg\<close> is \<^verbatim>\<open>args.end\<close>; a flag that was not given is \<^const>\<open>None\<close>, and
  \<^verbatim>\<open>--recurrence\<close> collects into a list that starts empty.
\<close>

record args =
  token :: string
  scopes :: "string list"
  http_method :: string
  path :: string
  params :: "string option"
  params_file :: "string option"
  body :: "string option"
  body_file :: "string option"
  calendar_id :: string
  event_id :: string
  summary :: "string option"
  start :: "string option"
  end_arg :: "string option"
  time_zone :: "string option"
  location :: "string option"
  description :: "string option"
  attendees :: "string option"
  recurrence :: "string list"
  send_updates :: "string option"

text \<open>\<^verbatim>\<open>cmd_call\<close> (lines 115--119): both inputs are resolved before the token is read.\<close>

definition cmd_call :: "env \<Rightarrow> args \<Rightarrow> world \<Rightarrow> (error + json) \<times> world" where
  "cmd_call e a w =
     (case load_json_input e w (params a) (params_file a) of
        Inl err \<Rightarrow> (Inl err, w)
      | Inr prms \<Rightarrow>
          (case load_json_input e w (body a) (body_file a) of
             Inl err \<Rightarrow> (Inl err, w)
           | Inr bdy \<Rightarrow>
               (case session_from_token e (token a) (Some (scopes a)) w of
                  (Inl err, w1) \<Rightarrow> (Inl err, w1)
                | (Inr sess, w1) \<Rightarrow>
                    request e sess (str_upper e (http_method a)) (path a) prms bdy
                      CALENDAR_BASE_URL w1)))"

text \<open>
  The optional fields of an event, added to the body in this order (lines 177--184 of
  \<^verbatim>\<open>cmd_create_event\<close>, and again lines 202--209 of \<^verbatim>\<open>cmd_update_event\<close>).
\<close>

definition attendee_list :: "string \<Rightarrow> json" where
  "attendee_list s =
     JArr (map (\<lambda>email. JObj [(''email'', JStr email)])
             (filter (\<lambda>email. email \<noteq> []) (split_sep (CHR '','') s)))"

definition optional_event_fields :: "args \<Rightarrow> dict \<Rightarrow> dict" where
  "optional_event_fields a b0 =
     (let b1 = (if truthy (location a)
                then dict_set b0 ''location'' (JStr (str_of (location a))) else b0);
          b2 = (if truthy (description a)
                then dict_set b1 ''description'' (JStr (str_of (description a))) else b1);
          b3 = (if truthy (attendees a)
                then dict_set b2 ''attendees'' (attendee_list (str_of (attendees a))) else b2);
          b4 = (if recurrence a \<noteq> []
                then dict_set b3 ''recurrence'' (JArr (map JStr (recurrence a))) else b3)
      in b4)"

definition send_updates_params :: "args \<Rightarrow> json" where
  "send_updates_params a =
     (if truthy (send_updates a) then JObj [(''sendUpdates'', JStr (str_of (send_updates a)))]
      else JNull)"

text \<open>
  \<^verbatim>\<open>cmd_create_event\<close> (lines 166--188). \<open>create_event_body\<close> is the block under
  \<^verbatim>\<open>if body is None\<close> (lines 170--184).
\<close>

definition required_msg :: string where
  "required_msg = ''--summary, --start, and --end are required unless --body is provided''"

definition create_event_body :: "args \<Rightarrow> error + json" where
  "create_event_body a =
     (if \<not> truthy (summary a) \<or> \<not> truthy (start a) \<or> \<not> truthy (end_arg a)
      then Inl (ValueError required_msg)
      else Inr (JObj (optional_event_fields a
             [(''summary'', JStr (str_of (summary a))),
              (''start'', JObj (time_object (str_of (start a)) (time_zone a))),
              (''end'', JObj (time_object (str_of (end_arg a)) (time_zone a)))])))"

definition cmd_create_event :: "env \<Rightarrow> args \<Rightarrow> world \<Rightarrow> (error + json) \<times> world" where
  "cmd_create_event e a w =
     (case session_from_token e (token a) (Some (scopes a)) w of
        (Inl err, w1) \<Rightarrow> (Inl err, w1)
      | (Inr sess, w1) \<Rightarrow>
          (case load_json_input e w1 (body a) (body_file a) of
             Inl err \<Rightarrow> (Inl err, w1)
           | Inr loaded \<Rightarrow>
               (case (if loaded = JNull then create_event_body a else Inr loaded) of
                  Inl err \<Rightarrow> (Inl err, w1)
                | Inr bdy \<Rightarrow>
                    request e sess ''POST'' (''/calendars/'' @ calendar_id a @ ''/events'')
                      (send_updates_params a) bdy CALENDAR_BASE_URL w1)))"

text \<open>
  \<^verbatim>\<open>cmd_update_event\<close> (lines 191--216). \<open>update_event_body\<close> is the block under
  \<^verbatim>\<open>if body is None\<close> (lines 195--209).
\<close>

definition update_msg :: string where
  "update_msg = ''Provide fields to update or pass --body/--body-file''"

definition update_event_body :: "args \<Rightarrow> json" where
  "update_event_body a =
     (let b0 = [];
          b1 = (if truthy (summary a)
                then dict_set b0 ''summary'' (JStr (str_of (summary a))) else b0);
          b2 = (if truthy (start a)
                then dict_set b1 ''start'' (JObj (time_object (str_of (start a)) (time_zone a)))
                else b1);
          b3 = (if truthy (end_arg a)
                then dict_set b2 ''end'' (JObj (time_object (str_of (end_arg a)) (time_zone a)))
                else b2)
      in JObj (optional_event_fields a b3))"

definition cmd_update_event :: "env \<Rightarrow> args \<Rightarrow> world \<Rightarrow> (error + json) \<times> world" where
  "cmd_update_event e a w =
     (case session_from_token e (token a) (Some (scopes a)) w of
        (Inl err, w1) \<Rightarrow> (Inl err, w1)
      | (Inr sess, w1) \<Rightarrow>
          (case load_json_input e w1 (body a) (body_file a) of
             Inl err \<Rightarrow> (Inl err, w1)
           | Inr loaded \<Rightarrow>
               (let bdy = (if loaded = JNull then update_event_body a else loaded) in
                if \<not> py_truthy bdy then (Inl (ValueError update_msg), w1)
                else request e sess ''PATCH''
                       (''/calendars/'' @ calendar_id a @ ''/events/'' @ event_id a)
                       (send_updates_params a) bdy CALENDAR_BASE_URL w1)))"

text \<open>
  The structured-field assembly in the words of the specification (section 4.3): each
  named flag, if present and non-empty, contributes one field to the output object under
  a fixed name. \<open>structured_fields a k\<close> is the value under the name \<open>k\<close>, if any. It is
  compared below with the bodies that \<^const>\<open>cmd_create_event\<close> and
  \<^const>\<open>cmd_update_event\<close> build.
\<close>

definition structured_fields :: "args \<Rightarrow> string \<Rightarrow> json option" where
  "structured_fields a k =
     (if k = ''summary'' \<and> truthy (summary a) then Some (JStr (str_of (summary a)))
      else if k = ''start'' \<and> truthy (start a)
        then Some (JObj (time_object (str_of (start a)) (time_zone a)))
      else if k = ''end'' \<and> truthy (end_arg a)
        then Some (JObj (time_object (str_of (end_arg a)) (time_zone a)))
      else if k = ''location'' \<and> truthy (location a) then Some (JStr (str_of (location a)))
      else if k = ''description'' \<and> truthy (description a)
        then Some (JStr (str_of (description a)))
      else if k = ''attendees'' \<and> truthy (attendees a)
        then Some (attendee_list (str_of (attendees a)))
      else if k = ''recurrence'' \<and> recurrence a \<noteq> []
        then Some (JArr (map JStr (recurrence a)))
      else None)"

section \<open>Fixtures for concrete runs\<close>

text \<open>
  A token file, three credential records and stand-ins for the libraries, used to run the
  functions on concrete inputs. \<open>demo_loads\<close> knows the documents \<^verbatim>\<open>null\<close> and
  \<^verbatim>\<open>{}\<close>; in \<open>demo_env\<close> the token file holds one word naming the credential record,
  a refresh turns \<open>renewable_creds\<close> into \<open>valid_creds\<close>, upper-casing is the one of
  the ASCII letters, and the server answers every request with \<open>demo_response\<close>;
  \<open>answering r\<close> makes it answer with \<open>r\<close>.
\<close>

definition valid_creds :: credentials where
  "valid_creds = \<lparr>access_token = Some ''ya29.a'', refresh_token = Some ''1//r'', expired = False\<rparr>"

definition stale_creds :: credentials where
  "stale_creds = \<lparr>access_token = Some ''ya29.old'', refresh_token = None, expired = True\<rparr>"

definition renewable_creds :: credentials where
  "renewable_creds = \<lparr>access_token = Some ''ya29.old'', refresh_token = Some ''1//r'', expired = True\<rparr>"

definition demo_loads :: "string \<Rightarrow> error + json" where
  "demo_loads s =
     (if s = ''null'' then Inr JNull
      else if s = ''{}'' then Inr (JObj [])
      else Inl (LibraryError ''JSONDecodeError''))"

definition demo_response :: response where
  "demo_response =
     \<lparr>status_code = 200, headers = [''Content-Type'' \<mapsto> ''application/json''],
      response_text = ''{}'', response_json = Inr (JObj [])\<rparr>"

definition ascii_upper :: "char \<Rightarrow> char" where
  "ascii_upper c =
     (let n = (of_char c :: nat)
      in if 97 \<le> n \<and> n \<le> 122 then char_of (n - 32) else c)"

definition demo_env :: env where
  "demo_env =
     \<lparr>resolve = (\<lambda>p. p),
      from_authorized_user_file =
        (\<lambda>txt scps. if txt = ''valid'' then Inr valid_creds
                     else if txt = ''stale'' then Inr stale_creds
                     else if txt = ''renewable'' then Inr renewable_creds
                     else Inl (ValueError ''not a token file'')),
      refresh = (\<lambda>c. Inr (c\<lparr>access_token := Some ''ya29.a'', expired := False\<rparr>)),
      to_json = (\<lambda>c. if \<not> expired c then ''valid''
                     else if truthy (refresh_token c) then ''renewable'' else ''stale''),
      json_loads = demo_loads,
      session_request = (\<lambda>s r. Inr demo_response),
      str_upper = map ascii_upper\<rparr>"

definition answering :: "response \<Rightarrow> env" where
  "answering r = demo_env\<lparr>session_request := (\<lambda>s q. Inr r)\<rparr>"

definition not_found_404 :: response where
  "not_found_404 =
     \<lparr>status_code = 404, headers = [''Content-Type'' \<mapsto> ''application/json; charset=UTF-8''],
      response_text = ''(the error document)'',
      response_json = Inr (JObj [(''error'', JObj [(''code'', JNum 404),
                                                    (''message'', JStr ''Not Found'')])])\<rparr>"

definition server_error_500 :: response where
  "server_error_500 =
     \<lparr>status_code = 500, headers = [''Content-Type'' \<mapsto> ''text/plain''],
      response_text = ''Internal Server Error'',
      response_json = Inl (LibraryError ''JSONDecodeError'')\<rparr>"

definition deleted_204 :: response where
  "deleted_204 =
     \<lparr>status_code = 204, headers = [''Content-Type'' \<mapsto> ''application/json''],
      response_text = ''a body that is not read'',
      response_json = Inl (LibraryError ''JSONDecodeError'')\<rparr>"

definition bad_json_500 :: response where
  "bad_json_500 =
     \<lparr>status_code = 500, headers = [''Content-Type'' \<mapsto> ''application/json''],
      response_text = ''<html>Internal Server Error</html>'',
      response_json = Inl (LibraryError ''JSONDecodeError'')\<rparr>"

definition page_200 :: response where
  "page_200 =
     \<lparr>status_code = 200, headers = Map.empty,
      response_text = ''<html>ok</html>'',
      response_json = Inl (LibraryError ''JSONDecodeError'')\<rparr>"

definition world_with :: "string \<Rightarrow> world" where
  "world_with txt = \<lparr>files = [''token.json'' \<mapsto> txt], network = []\<rparr>"

definition no_args :: args where
  "no_args =
     \<lparr>token = ''token.json'', scopes = [''https://www.googleapis.com/auth/calendar''],
      http_method = ''get'', path = ''/users/me/calendarList'',
      params = None, params_file = None, body = None, body_file = None,
      calendar_id = ''primary'', event_id = ''ev1'',
      summary = None, start = None, end_arg = None, time_zone = None,
      location = None, description = None, attendees = None, recurrence = [],
      send_updates = None\<rparr>"

definition standup_args :: args where
  "standup_args =
     no_args\<lparr>summary := Some ''Standup'', start := Some ''2024-01-01T10:00:00'',
             end_arg := Some ''2024-01-01T10:30:00'', time_zone := Some ''America/New_York'',
             location := Some ''Room 1'', attendees := Some ''a@x.org,,b@x.org''\<rparr>"

section \<open>String helpers agree with the library's notions\<close>

lemma contains_char: "contains s [c] = (c \<in> set s)"
  by (induction s) auto

lemma startswith_prefix: "startswith s p = prefix p s"
  by (induction s p rule: startswith.induct) auto

lemma contains_sublist: "contains s sub = sublist sub s"
  by (induction s) (auto simp: startswith_prefix sublist_Cons_right)

section \<open>Time encoding\<close>

text \<open>
  Claim C6. \<^const>\<open>time_object\<close> maps \<^verbatim>\<open>2024-01-01\<close> to a pure date object with no time
  zone field, whatever the fallback zone; \<^verbatim>\<open>2024-01-01T10:00:00\<close> with the fallback zone
  \<^verbatim>\<open>America/New_York\<close> to a date-time object with \<^verbatim>\<open>timeZone\<close> set to that zone;
  \<^verbatim>\<open>2024-01-01T10:00:00Z\<close> and \<^verbatim>\<open>2024-01-01T10:00:00-05:00\<close> to date-time objects
  with no \<^verbatim>\<open>timeZone\<close> field, whatever the fallback zone.
\<close>

theorem C6_time_encoding_examples:
  "time_object ''2024-01-01'' tz = [(''date'', JStr ''2024-01-01'')]
   \<and> time_object ''2024-01-01T10:00:00'' (Some ''America/New_York'')
       = [(''dateTime'', JStr ''2024-01-01T10:00:00''), (''timeZone'', JStr ''America/New_York'')]
   \<and> time_object ''2024-01-01T10:00:00Z'' tz = [(''dateTime'', JStr ''2024-01-01T10:00:00Z'')]
   \<and> time_object ''2024-01-01T10:00:00-05:00'' tz
       = [(''dateTime'', JStr ''2024-01-01T10:00:00-05:00'')]"
  by (simp add: time_object_def truthy_def str_of_def)

text \<open>
  The string \<^verbatim>\<open>+2024-01-01T10:00:00\<close> has a time marker, no \<^verbatim>\<open>Z\<close>, and neither
  \<^verbatim>\<open>+\<close> nor \<^verbatim>\<open>-\<close> after its 10th character, yet no \<^verbatim>\<open>timeZone\<close> is attached:
  line 81 looks for \<^verbatim>\<open>+\<close> in the whole string.
\<close>

theorem C2_plus_in_date_counterexample:
  "CHR ''T'' \<in> set ''+2024-01-01T10:00:00''
   \<and> CHR ''Z'' \<notin> set ''+2024-01-01T10:00:00''
   \<and> CHR ''+'' \<notin> set (drop 10 ''+2024-01-01T10:00:00'')
   \<and> CHR ''-'' \<notin> set (drop 10 ''+2024-01-01T10:00:00'')
   \<and> time_object ''+2024-01-01T10:00:00'' (Some ''UTC'')
       = [(''dateTime'', JStr ''+2024-01-01T10:00:00'')]
   \<and> dict_get (time_object ''+2024-01-01T10:00:00'' (Some ''UTC'')) ''timeZone'' = None"
  by (simp add: time_object_def truthy_def str_of_def dict_get_def)

text \<open>
  Claim C2, as the code has it. For a string with a time marker, the \<^verbatim>\<open>timeZone\<close> field
  is attached exactly when the fallback zone is given and not empty, the string has no
  \<^verbatim>\<open>Z\<close> and no \<^verbatim>\<open>+\<close> anywhere, and no \<^verbatim>\<open>-\<close> after its 10th character; the field
  then holds the fallback zone. A \<^verbatim>\<open>-\<close> within the first 10 characters does not
  suppress it; a \<^verbatim>\<open>+\<close> there does.
\<close>

theorem C2_time_zone_attached:
  assumes "CHR ''T'' \<in> set v"
  shows "(''timeZone'' \<in> set (dict_keys (time_object v tz)))
        = (truthy tz \<and> CHR ''Z'' \<notin> set v \<and> CHR ''+'' \<notin> set v \<and> CHR ''-'' \<notin> set (drop 10 v))
    \<and> dict_get (time_object v tz) ''timeZone''
        = (if truthy tz \<and> CHR ''Z'' \<notin> set v \<and> CHR ''+'' \<notin> set v \<and> CHR ''-'' \<notin> set (drop 10 v)
           then Some (JStr (str_of tz)) else None)
    \<and> dict_get (time_object v tz) ''dateTime'' = Some (JStr v)"
  using assms by (auto simp: time_object_def contains_char dict_get_def dict_keys_def Let_def)

theorem C2_time_zone_attached_witness:
  "CHR ''T'' \<in> set ''-2024-01-01T10:00:00''
   \<and> dict_get (time_object ''-2024-01-01T10:00:00'' (Some ''Europe/Paris'')) ''timeZone''
       = Some (JStr ''Europe/Paris'')
   \<and> dict_get (time_object ''2024-01-01T10:00:00+02:00'' (Some ''Europe/Paris'')) ''timeZone'' = None
   \<and> dict_get (time_object ''2024-01-01T10:00:00'' (Some [])) ''timeZone'' = None"
  using C2_time_zone_attached [of "''-2024-01-01T10:00:00''" "Some ''Europe/Paris''"]
        C2_time_zone_attached [of "''2024-01-01T10:00:00+02:00''" "Some ''Europe/Paris''"]
        C2_time_zone_attached [of "''2024-01-01T10:00:00''" "Some []"]
  by (simp add: truthy_def str_of_def)

section \<open>Loading the credential\<close>

text \<open>
  The token file of \<open>world_with ''stale''\<close> holds a credential that is expired and has no
  refresh token. \<^const>\<open>load_credentials\<close> returns it: the guard of line 34 is false, and
  no other line raises.
\<close>

theorem C1_expired_credential_returned_counterexample:
  "expired stale_creds \<and> \<not> truthy (refresh_token stale_creds)
   \<and> files (world_with ''stale'') (resolve demo_env ''token.json'') = Some ''stale''
   \<and> from_authorized_user_file demo_env ''stale'' (Some []) = Inr stale_creds
   \<and> load_credentials demo_env ''token.json'' (Some []) (world_with ''stale'')
       = (Inr stale_creds, world_with ''stale'')"
  by (simp add: load_credentials_def demo_env_def world_with_def stale_creds_def truthy_def)

text \<open>
  Claim C1, as the code has it. For every credential record that is expired and has no
  refresh token, \<^const>\<open>load_credentials\<close> returns the record as it was read, still
  expired, and leaves the world as it was: no refresh, no network call, no write to the
  token file. It raises nothing of its own.
\<close>

theorem C1_expired_without_refresh_token:
  assumes "files w (resolve e token_path) = Some txt"
    and "from_authorized_user_file e txt scps = Inr creds"
    and "expired creds"
    and "\<not> truthy (refresh_token creds)"
  shows "load_credentials e token_path scps w = (Inr creds, w)"
  using assms by (simp add: load_credentials_def)

theorem C1_expired_without_refresh_token_witness:
  "files (world_with ''stale'') (resolve demo_env ''token.json'') = Some ''stale''
   \<and> from_authorized_user_file demo_env ''stale'' None = Inr stale_creds
   \<and> expired stale_creds \<and> \<not> truthy (refresh_token stale_creds)
   \<and> load_credentials demo_env ''token.json'' None (world_with ''stale'')
       = (Inr stale_creds, world_with ''stale'')"
proof -
  have f: "files (world_with ''stale'') (resolve demo_env ''token.json'') = Some ''stale''"
    by (simp add: world_with_def demo_env_def)
  have p: "from_authorized_user_file demo_env ''stale'' None = Inr stale_creds"
    by (simp add: demo_env_def)
  have x: "expired stale_creds" by (simp add: stale_creds_def)
  have r: "\<not> truthy (refresh_token stale_creds)" by (simp add: stale_creds_def truthy_def)
  from C1_expired_without_refresh_token [OF f p x r] f p x r show ?thesis by simp
qed

text \<open>
  Claim C9. For every credential record whose access token is not expired,
  \<^const>\<open>load_credentials\<close> returns the record unchanged and leaves the world as it
  was: the token file is not rewritten (and no network call is made).
\<close>

theorem C9_valid_credential_unchanged:
  assumes "files w (resolve e token_path) = Some txt"
    and "from_authorized_user_file e txt scps = Inr creds"
    and "\<not> expired creds"
  shows "load_credentials e token_path scps w = (Inr creds, w)"
  using assms by (simp add: load_credentials_def)

theorem C9_valid_credential_unchanged_witness:
  "files (world_with ''valid'') (resolve demo_env ''token.json'') = Some ''valid''
   \<and> from_authorized_user_file demo_env ''valid'' None = Inr valid_creds
   \<and> \<not> expired valid_creds
   \<and> load_credentials demo_env ''token.json'' None (world_with ''valid'')
       = (Inr valid_creds, world_with ''valid'')"
proof -
  have f: "files (world_with ''valid'') (resolve demo_env ''token.json'') = Some ''valid''"
    by (simp add: world_with_def demo_env_def)
  have p: "from_authorized_user_file demo_env ''valid'' None = Inr valid_creds"
    by (simp add: demo_env_def)
  have x: "\<not> expired valid_creds" by (simp add: valid_creds_def)
  from C9_valid_credential_unchanged [OF f p x] f p x show ?thesis by simp
qed

section \<open>The dispatcher\<close>

lemma request_logs_call:
  "network (snd (request e sess meth pth prms bdy base_url w))
     = network w @ [ApiCall \<lparr>req_method = meth, req_url = request_url base_url pth,
                             req_params = prms, req_json = bdy\<rparr>]"
  by (simp add: request_def Let_def split: sum.splits)

lemma request_keeps_files:
  "files (snd (request e sess meth pth prms bdy base_url w)) = files w"
  by (simp add: request_def Let_def split: sum.splits)

text \<open>
  The target \<^verbatim>\<open>//x\<close> has no scheme prefix and already starts with a slash, so line 56
  leaves it alone: the path joined onto the base URL starts with two slashes.
\<close>

theorem C8_double_slash_counterexample:
  "\<not> prefix ''http://'' ''//x'' \<and> \<not> prefix ''https://'' ''//x''
   \<and> normalized_path ''//x'' = ''//x'' \<and> prefix ''//'' (normalized_path ''//x'')
   \<and> network (snd (request demo_env (AuthorizedSession valid_creds) ''GET'' ''//x'' JNull JNull
                       ''https://www.googleapis.com/calendar/v3'' (world_with ''valid'')))
       = [ApiCall \<lparr>req_method = ''GET'', req_url = ''https://www.googleapis.com/calendar/v3//x'',
                    req_params = JNull, req_json = JNull\<rparr>]"
  by (simp add: request_logs_call request_url_def normalized_path_def world_with_def)

text \<open>
  Claim C8, as the code has it. The URL that \<^const>\<open>request\<close> calls is the target
  itself exactly when the target begins with \<^verbatim>\<open>http://\<close> or \<^verbatim>\<open>https://\<close>;
  otherwise it is the base URL followed by the target, with one slash put in front of a
  target that does not begin with one. The joined path always begins with a slash; it
  begins with two exactly when the target did (leading slashes are never removed).
\<close>

theorem C8_url_resolution:
  "network (snd (request e sess meth pth prms bdy base_url w))
     = network w @ [ApiCall \<lparr>req_method = meth,
                             req_url = (if prefix ''http://'' pth \<or> prefix ''https://'' pth then pth
                                        else base_url @ normalized_path pth),
                             req_params = prms, req_json = bdy\<rparr>]
   \<and> normalized_path pth = (if prefix ''/'' pth then pth else ''/'' @ pth)
   \<and> prefix ''/'' (normalized_path pth)
   \<and> prefix ''//'' (normalized_path pth) = prefix ''//'' pth"
  by (cases pth) (simp_all add: request_logs_call request_url_def normalized_path_def startswith_prefix)

text \<open>
  The response \<open>bad_json_500\<close> has status 500 and a JSON content type, and its body does
  not parse. \<^const>\<open>request\<close> fails with the parser's error (line 65 raises before line
  68 is reached): the failure carries neither the status code nor a payload.
\<close>

theorem C3_unparsable_error_body_counterexample:
  "status_code bad_json_500 \<ge> 400
   \<and> sublist ''application/json'' (content_type bad_json_500)
   \<and> session_request (answering bad_json_500) (AuthorizedSession valid_creds)
         \<lparr>req_method = ''GET'', req_url = request_url CALENDAR_BASE_URL ''/calendars/primary'',
          req_params = JNull, req_json = JNull\<rparr> = Inr bad_json_500
   \<and> fst (request (answering bad_json_500) (AuthorizedSession valid_creds) ''GET''
              ''/calendars/primary'' JNull JNull CALENDAR_BASE_URL (world_with ''valid''))
       = Inl (LibraryError ''JSONDecodeError'')"
  by (simp add: request_def response_result_def answering_def bad_json_500_def
        content_type_def contains_sublist [symmetric])

text \<open>
  Claim C3, as the code has it. \<^const>\<open>request\<close> reads the response \<open>r\<close> of the server in
  this order. Status 400 or more: always a failure. With a content type that contains
  \<^verbatim>\<open>application/json\<close> it carries the status code and the parsed JSON body when the body
  parses, and it is the parser's own error (no status code) when the body does not parse;
  with any other content type it carries the status code and \<^verbatim>\<open>{"error": <raw text>}\<close>.
  Status 204: success with \<^verbatim>\<open>{"status": "deleted"}\<close>, whatever the body and the content
  type. Otherwise: for a JSON content type the parsed body, or the parser's error when
  the body does not parse; for any other content type \<^verbatim>\<open>{"text": <raw body>}\<close>.
\<close>

theorem C3_response_classification:
  assumes "session_request e sess \<lparr>req_method = meth, req_url = request_url base_url pth,
                                   req_params = prms, req_json = bdy\<rparr> = Inr r"
  shows "(status_code r \<ge> 400 \<longrightarrow> isl (fst (request e sess meth pth prms bdy base_url w)))
    \<and> (status_code r \<ge> 400 \<and> sublist ''application/json'' (content_type r)
            \<and> response_json r = Inr payload
          \<longrightarrow> fst (request e sess meth pth prms bdy base_url w)
                = Inl (RuntimeError (status_code r) payload))
    \<and> (status_code r \<ge> 400 \<and> sublist ''application/json'' (content_type r)
            \<and> response_json r = Inl err
          \<longrightarrow> fst (request e sess meth pth prms bdy base_url w) = Inl err)
    \<and> (status_code r \<ge> 400 \<and> \<not> sublist ''application/json'' (content_type r)
          \<longrightarrow> fst (request e sess meth pth prms bdy base_url w)
                = Inl (RuntimeError (status_code r) (JObj [(''error'', JStr (response_text r))])))
    \<and> (status_code r = 204
          \<longrightarrow> fst (request e sess meth pth prms bdy base_url w)
                = Inr (JObj [(''status'', JStr ''deleted'')]))
    \<and> (status_code r < 400 \<and> status_code r \<noteq> 204
            \<and> sublist ''application/json'' (content_type r)
          \<longrightarrow> fst (request e sess meth pth prms bdy base_url w) = response_json r)
    \<and> (status_code r < 400 \<and> status_code r \<noteq> 204
            \<and> \<not> sublist ''application/json'' (content_type r)
          \<longrightarrow> fst (request e sess meth pth prms bdy base_url w)
                = Inr (JObj [(''text'', JStr (response_text r))]))"
  using assms
  by (auto simp: request_def response_result_def contains_sublist Let_def split: sum.splits)

theorem C3_response_classification_witness:
  "fst (request (answering not_found_404) (AuthorizedSession valid_creds)
          ''GET'' ''/calendars/primary/events/x'' JNull JNull CALENDAR_BASE_URL (world_with ''valid''))
     = Inl (RuntimeError 404 (JObj [(''error'', JObj [(''code'', JNum 404),
                                                       (''message'', JStr ''Not Found'')])]))
   \<and> fst (request (answering bad_json_500) (AuthorizedSession valid_creds)
          ''GET'' ''/calendars/primary/events/x'' JNull JNull CALENDAR_BASE_URL (world_with ''valid''))
     = Inl (LibraryError ''JSONDecodeError'')
   \<and> fst (request (answering server_error_500) (AuthorizedSession valid_creds)
          ''GET'' ''/calendars/primary/events/x'' JNull JNull CALENDAR_BASE_URL (world_with ''valid''))
     = Inl (RuntimeError 500 (JObj [(''error'', JStr ''Internal Server Error'')]))
   \<and> fst (request (answering deleted_204) (AuthorizedSession valid_creds)
          ''GET'' ''/calendars/primary/events/x'' JNull JNull CALENDAR_BASE_URL (world_with ''valid''))
     = Inr (JObj [(''status'', JStr ''deleted'')])
   \<and> fst (request (answering demo_response) (AuthorizedSession valid_creds)
          ''GET'' ''/calendars/primary/events/x'' JNull JNull CALENDAR_BASE_URL (world_with ''valid''))
     = Inr (JObj [])
   \<and> fst (request (answering page_200) (AuthorizedSession valid_creds)
          ''GET'' ''/calendars/primary/events/x'' JNull JNull CALENDAR_BASE_URL (world_with ''valid''))
     = Inr (JObj [(''text'', JStr ''<html>ok</html>'')])"
proof -
  let ?s = "AuthorizedSession valid_creds"
  let ?p = "''/calendars/primary/events/x''"
  let ?w = "world_with ''valid''"
  have j: "sublist ''application/json'' (content_type not_found_404)"
          "sublist ''application/json'' (content_type bad_json_500)"
          "\<not> sublist ''application/json'' (content_type server_error_500)"
          "sublist ''application/json'' (content_type demo_response)"
          "\<not> sublist ''application/json'' (content_type page_200)"
    by (simp_all add: contains_sublist [symmetric] content_type_def not_found_404_def
          bad_json_500_def server_error_500_def demo_response_def page_200_def)
  have s: "status_code not_found_404 = 404" "status_code server_error_500 = 500"
          "status_code bad_json_500 = 500"
          "status_code deleted_204 = 204" "status_code demo_response = 200"
          "status_code page_200 = 200"
    by (simp_all add: not_found_404_def server_error_500_def bad_json_500_def deleted_204_def
          demo_response_def page_200_def)
  have b: "response_json not_found_404
             = Inr (JObj [(''error'', JObj [(''code'', JNum 404), (''message'', JStr ''Not Found'')])])"
          "response_json bad_json_500 = Inl (LibraryError ''JSONDecodeError'')"
          "response_text server_error_500 = ''Internal Server Error''"
          "response_json demo_response = Inr (JObj [])"
          "response_text page_200 = ''<html>ok</html>''"
    by (simp_all add: not_found_404_def bad_json_500_def server_error_500_def demo_response_def
          page_200_def)
  have "session_request (answering r) ?s q = Inr r" for r q
    by (simp add: answering_def)
  note c = C3_response_classification [where sess = ?s and w = ?w and meth = "''GET''"
             and base_url = CALENDAR_BASE_URL and pth = ?p and prms = JNull and bdy = JNull,
             OF this]
  from c [where r = not_found_404 and payload =
            "JObj [(''error'', JObj [(''code'', JNum 404), (''message'', JStr ''Not Found'')])]"]
       c [where r = bad_json_500 and err = "LibraryError ''JSONDecodeError''"]
       c [where r = server_error_500]
       c [where r = deleted_204]
       c [where r = demo_response]
       c [where r = page_200]
  show ?thesis by (simp add: j s b)
qed

section \<open>Resolving inputs and loading the token\<close>

lemma load_json_input_absent:
  "\<not> truthy raw \<Longrightarrow> \<not> truthy pth \<Longrightarrow> load_json_input e w raw pth = Inr JNull"
  by (simp add: load_json_input_def)

lemma load_credentials_network:
  assumes "load_credentials e token_path scps w = (res, w1)"
  shows "network w1 = network w \<or> (\<exists>c. network w1 = network w @ [TokenRefresh c])"
  using assms
  by (auto simp: load_credentials_def Let_def split: option.splits sum.splits if_splits)

lemma session_from_token_network:
  assumes "session_from_token e token_path scps w = (res, w1)"
  shows "network w1 = network w \<or> (\<exists>c. network w1 = network w @ [TokenRefresh c])"
proof -
  obtain r where "load_credentials e token_path scps w = (r, w1)"
    using assms by (auto simp: session_from_token_def split: prod.splits sum.splits)
  then show ?thesis by (rule load_credentials_network)
qed

lemma cmd_create_event_assembles:
  assumes "session_from_token e (token a) (Some (scopes a)) w = (Inr sess, w1)"
    and "load_json_input e w1 (body a) (body_file a) = Inr JNull"
  shows "cmd_create_event e a w
     = (case create_event_body a of
          Inl err \<Rightarrow> (Inl err, w1)
        | Inr bdy \<Rightarrow> request e sess ''POST'' (''/calendars/'' @ calendar_id a @ ''/events'')
                       (send_updates_params a) bdy CALENDAR_BASE_URL w1)"
  using assms by (simp add: cmd_create_event_def)

section \<open>Event creation\<close>

lemma keys_dict_set:
  "set (dict_keys (dict_set d k v)) = insert k (set (dict_keys d))"
  by (induction d k v rule: dict_set.induct) (auto simp: dict_keys_def)

lemma distinct_dict_set:
  "distinct (dict_keys d) \<Longrightarrow> distinct (dict_keys (dict_set d k v))"
proof (induction d k v rule: dict_set.induct)
  case (1 k v)
  then show ?case by (simp add: dict_keys_def)
next
  case (2 k' v' d k v)
  have "set (map fst (dict_set d k v)) = insert k (set (map fst d))"
    using keys_dict_set [of d k v] by (simp add: dict_keys_def)
  with 2 show ?case by (auto simp: dict_keys_def)
qed

lemma dict_get_dict_set:
  "dict_get (dict_set d k v) k' = (if k' = k then Some v else dict_get d k')"
  by (induction d k v rule: dict_set.induct) (auto simp: dict_get_def)

lemma optional_event_fields_keys:
  "set (dict_keys (optional_event_fields a b0))
     = set (dict_keys b0)
       \<union> (if truthy (location a) then {''location''} else {})
       \<union> (if truthy (description a) then {''description''} else {})
       \<union> (if truthy (attendees a) then {''attendees''} else {})
       \<union> (if recurrence a \<noteq> [] then {''recurrence''} else {})"
  by (simp add: optional_event_fields_def Let_def keys_dict_set)

lemma optional_event_fields_distinct:
  "distinct (dict_keys b0) \<Longrightarrow> distinct (dict_keys (optional_event_fields a b0))"
  by (simp add: optional_event_fields_def Let_def distinct_dict_set)

lemma optional_event_fields_required:
  "dict_get (optional_event_fields a b0) ''summary'' = dict_get b0 ''summary''"
  "dict_get (optional_event_fields a b0) ''start'' = dict_get b0 ''start''"
  "dict_get (optional_event_fields a b0) ''end'' = dict_get b0 ''end''"
  by (simp_all add: optional_event_fields_def Let_def dict_get_dict_set)

lemma create_event_body_missing:
  "\<not> truthy (summary a) \<or> \<not> truthy (start a) \<or> \<not> truthy (end_arg a)
   \<Longrightarrow> create_event_body a = Inl (ValueError required_msg)"
  by (auto simp: create_event_body_def)

lemma create_event_body_given:
  assumes "truthy (summary a)" and "truthy (start a)" and "truthy (end_arg a)"
  shows "create_event_body a
     = Inr (JObj (optional_event_fields a
             [(''summary'', JStr (str_of (summary a))),
              (''start'', JObj (time_object (str_of (start a)) (time_zone a))),
              (''end'', JObj (time_object (str_of (end_arg a)) (time_zone a)))]))"
  using assms by (simp add: create_event_body_def)

text \<open>
  \<^const>\<open>cmd_create_event\<close> loads the token first (line 167). With no body and none of
  summary, start and end: where the token file is missing the command fails with that
  error, not with the required-fields error; where the credential is expired and has a
  refresh token, the refresh call goes out before the required-fields error is raised.
\<close>

theorem C7_token_first_counterexample:
  "\<not> truthy (body no_args) \<and> \<not> truthy (body_file no_args)
   \<and> \<not> truthy (summary no_args) \<and> \<not> truthy (start no_args) \<and> \<not> truthy (end_arg no_args)
   \<and> cmd_create_event demo_env no_args \<lparr>files = Map.empty, network = []\<rparr>
       = (Inl (FileNotFoundError ''token.json''), \<lparr>files = Map.empty, network = []\<rparr>)
   \<and> fst (cmd_create_event demo_env no_args (world_with ''renewable''))
       = Inl (ValueError required_msg)
   \<and> network (snd (cmd_create_event demo_env no_args (world_with ''renewable'')))
       = [TokenRefresh renewable_creds]"
  by (simp add: cmd_create_event_def session_from_token_def load_credentials_def
        load_json_input_def create_event_body_def demo_env_def no_args_def world_with_def
        renewable_creds_def truthy_def)

text \<open>
  Claim C7, as the code has it. Once the token is loaded, with no inline body and no body
  file: if any of summary, start and end is missing, \<^const>\<open>cmd_create_event\<close> fails with
  the required-fields error and sends no API request; if all three are given, it sends a
  body whose keys are exactly \<^verbatim>\<open>summary\<close>, \<^verbatim>\<open>start\<close>, \<^verbatim>\<open>end\<close> and those of
  \<^verbatim>\<open>location\<close>, \<^verbatim>\<open>description\<close>, \<^verbatim>\<open>attendees\<close>, \<^verbatim>\<open>recurrence\<close> that were
  given, each once. Loading the token adds at most one token refresh to the network log.
\<close>

theorem C7_create_event_fields:
  assumes tok: "session_from_token e (token a) (Some (scopes a)) w = (Inr sess, w1)"
    and nb: "\<not> truthy (body a)" and nf: "\<not> truthy (body_file a)"
  shows "(\<not> truthy (summary a) \<or> \<not> truthy (start a) \<or> \<not> truthy (end_arg a)
            \<longrightarrow> cmd_create_event e a w = (Inl (ValueError required_msg), w1))
    \<and> (truthy (summary a) \<and> truthy (start a) \<and> truthy (end_arg a)
            \<longrightarrow> (\<exists>b. cmd_create_event e a w
                       = request e sess ''POST'' (''/calendars/'' @ calendar_id a @ ''/events'')
                           (send_updates_params a) (JObj b) CALENDAR_BASE_URL w1
                  \<and> distinct (dict_keys b)
                  \<and> set (dict_keys b)
                      = {''summary'', ''start'', ''end''}
                        \<union> (if truthy (location a) then {''location''} else {})
                        \<union> (if truthy (description a) then {''description''} else {})
                        \<union> (if truthy (attendees a) then {''attendees''} else {})
                        \<union> (if recurrence a \<noteq> [] then {''recurrence''} else {})
                  \<and> dict_get b ''summary'' = Some (JStr (str_of (summary a)))
                  \<and> dict_get b ''start''
                      = Some (JObj (time_object (str_of (start a)) (time_zone a)))
                  \<and> dict_get b ''end''
                      = Some (JObj (time_object (str_of (end_arg a)) (time_zone a)))))
    \<and> (network w1 = network w \<or> (\<exists>c. network w1 = network w @ [TokenRefresh c]))"
proof (intro conjI impI)
  have absent: "load_json_input e w1 (body a) (body_file a) = Inr JNull"
    using nb nf by (rule load_json_input_absent)
  note run = cmd_create_event_assembles [OF tok absent]
  {
    assume "\<not> truthy (summary a) \<or> \<not> truthy (start a) \<or> \<not> truthy (end_arg a)"
    then show "cmd_create_event e a w = (Inl (ValueError required_msg), w1)"
      by (simp add: run create_event_body_missing)
  }
  {
    assume given: "truthy (summary a) \<and> truthy (start a) \<and> truthy (end_arg a)"
    let ?b0 = "[(''summary'', JStr (str_of (summary a))),
                (''start'', JObj (time_object (str_of (start a)) (time_zone a))),
                (''end'', JObj (time_object (str_of (end_arg a)) (time_zone a)))]"
    let ?b = "optional_event_fields a ?b0"
    have "cmd_create_event e a w
            = request e sess ''POST'' (''/calendars/'' @ calendar_id a @ ''/events'')
                (send_updates_params a) (JObj ?b) CALENDAR_BASE_URL w1"
      using given by (simp add: run create_event_body_given)
    moreover have "distinct (dict_keys ?b)"
      by (rule optional_event_fields_distinct) (simp add: dict_keys_def)
    moreover have "set (dict_keys ?b)
        = {''summary'', ''start'', ''end''}
          \<union> (if truthy (location a) then {''location''} else {})
          \<union> (if truthy (description a) then {''description''} else {})
          \<union> (if truthy (attendees a) then {''attendees''} else {})
          \<union> (if recurrence a \<noteq> [] then {''recurrence''} else {})"
      unfolding optional_event_fields_keys by (simp add: dict_keys_def)
    moreover have "dict_get ?b ''summary'' = Some (JStr (str_of (summary a)))"
      and "dict_get ?b ''start'' = Some (JObj (time_object (str_of (start a)) (time_zone a)))"
      and "dict_get ?b ''end'' = Some (JObj (time_object (str_of (end_arg a)) (time_zone a)))"
      by (simp_all only: optional_event_fields_required) (simp_all add: dict_get_def)
    ultimately show "\<exists>b. cmd_create_event e a w
                       = request e sess ''POST'' (''/calendars/'' @ calendar_id a @ ''/events'')
                           (send_updates_params a) (JObj b) CALENDAR_BASE_URL w1
                  \<and> distinct (dict_keys b)
                  \<and> set (dict_keys b)
                      = {''summary'', ''start'', ''end''}
                        \<union> (if truthy (location a) then {''location''} else {})
                        \<union> (if truthy (description a) then {''description''} else {})
                        \<union> (if truthy (attendees a) then {''attendees''} else {})
                        \<union> (if recurrence a \<noteq> [] then {''recurrence''} else {})
                  \<and> dict_get b ''summary'' = Some (JStr (str_of (summary a)))
                  \<and> dict_get b ''start''
                      = Some (JObj (time_object (str_of (start a)) (time_zone a)))
                  \<and> dict_get b ''end''
                      = Some (JObj (time_object (str_of (end_arg a)) (time_zone a)))"
      by blast
  }
  show "network w1 = network w \<or> (\<exists>c. network w1 = network w @ [TokenRefresh c])"
    using tok by (rule session_from_token_network)
qed

theorem C7_create_event_fields_witness:
  "session_from_token demo_env (token standup_args) (Some (scopes standup_args)) (world_with ''valid'')
     = (Inr (AuthorizedSession valid_creds), world_with ''valid'')
   \<and> \<not> truthy (body standup_args) \<and> \<not> truthy (body_file standup_args)
   \<and> cmd_create_event demo_env no_args (world_with ''valid'')
       = (Inl (ValueError required_msg), world_with ''valid'')
   \<and> (\<exists>b. cmd_create_event demo_env standup_args (world_with ''valid'')
             = request demo_env (AuthorizedSession valid_creds) ''POST''
                 ''/calendars/primary/events'' JNull (JObj b) CALENDAR_BASE_URL (world_with ''valid'')
          \<and> set (dict_keys b) = {''summary'', ''start'', ''end'', ''location'', ''attendees''})
   \<and> network (snd (cmd_create_event demo_env standup_args (world_with ''valid'')))
       = [ApiCall \<lparr>req_method = ''POST'',
                    req_url = ''https://www.googleapis.com/calendar/v3/calendars/primary/events'',
                    req_params = JNull,
                    req_json = JObj
                      [(''summary'', JStr ''Standup''),
                       (''start'', JObj [(''dateTime'', JStr ''2024-01-01T10:00:00''),
                                         (''timeZone'', JStr ''America/New_York'')]),
                       (''end'', JObj [(''dateTime'', JStr ''2024-01-01T10:30:00''),
                                       (''timeZone'', JStr ''America/New_York'')]),
                       (''location'', JStr ''Room 1''),
                       (''attendees'', JArr [JObj [(''email'', JStr ''a@x.org'')],
                                             JObj [(''email'', JStr ''b@x.org'')]])]\<rparr>]"
proof -
  let ?w = "world_with ''valid''"
  have tok: "session_from_token demo_env (token a) (Some (scopes a)) ?w
               = (Inr (AuthorizedSession valid_creds), ?w)"
    if "token a = ''token.json''" for a
    using that
    by (simp add: session_from_token_def load_credentials_def demo_env_def world_with_def
          valid_creds_def)
  have t0: "token no_args = ''token.json''" and t1: "token standup_args = ''token.json''"
    by (simp_all add: standup_args_def no_args_def)
  have n0: "\<not> truthy (body no_args)" "\<not> truthy (body_file no_args)"
    and n1: "\<not> truthy (body standup_args)" "\<not> truthy (body_file standup_args)"
    by (simp_all add: standup_args_def no_args_def truthy_def)
  have miss: "\<not> truthy (summary no_args) \<or> \<not> truthy (start no_args) \<or> \<not> truthy (end_arg no_args)"
    by (simp add: no_args_def truthy_def)
  have given: "truthy (summary standup_args) \<and> truthy (start standup_args) \<and> truthy (end_arg standup_args)"
    by (simp add: standup_args_def no_args_def truthy_def)
  have opt: "truthy (location standup_args)" "\<not> truthy (description standup_args)"
    "truthy (attendees standup_args)" "recurrence standup_args = []"
    by (simp_all add: standup_args_def no_args_def truthy_def)
  have misc: "calendar_id standup_args = ''primary''" "send_updates_params standup_args = JNull"
    by (simp_all add: standup_args_def no_args_def send_updates_params_def truthy_def)
  have fail: "cmd_create_event demo_env no_args ?w = (Inl (ValueError required_msg), ?w)"
    using C7_create_event_fields [OF tok [OF t0] n0] miss by blast
  have "\<exists>b. cmd_create_event demo_env standup_args ?w
             = request demo_env (AuthorizedSession valid_creds) ''POST''
                 ''/calendars/primary/events'' JNull (JObj b) CALENDAR_BASE_URL ?w
          \<and> set (dict_keys b) = {''summary'', ''start'', ''end'', ''location'', ''attendees''}"
    using C7_create_event_fields [OF tok [OF t1] n1] given
    by (auto simp: opt misc)
  moreover have "network (snd (cmd_create_event demo_env standup_args ?w))
       = [ApiCall \<lparr>req_method = ''POST'',
                    req_url = ''https://www.googleapis.com/calendar/v3/calendars/primary/events'',
                    req_params = JNull,
                    req_json = JObj
                      [(''summary'', JStr ''Standup''),
                       (''start'', JObj [(''dateTime'', JStr ''2024-01-01T10:00:00''),
                                         (''timeZone'', JStr ''America/New_York'')]),
                       (''end'', JObj [(''dateTime'', JStr ''2024-01-01T10:30:00''),
                                       (''timeZone'', JStr ''America/New_York'')]),
                       (''location'', JStr ''Room 1''),
                       (''attendees'', JArr [JObj [(''email'', JStr ''a@x.org'')],
                                             JObj [(''email'', JStr ''b@x.org'')]])]\<rparr>]"
    by (simp add: cmd_create_event_def tok [OF t1] load_json_input_absent [OF n1]
          create_event_body_given given request_logs_call)
       (simp add: standup_args_def no_args_def optional_event_fields_def time_object_def
          attendee_list_def send_updates_params_def request_url_def normalized_path_def
          CALENDAR_BASE_URL_def truthy_def str_of_def world_with_def)
  ultimately show ?thesis
    using tok [OF t1] n1 fail by simp
qed

section \<open>Body override and structured fields\<close>

lemma optional_event_fields_get:
  "dict_get (optional_event_fields a b0) k
     = (if k = ''location'' \<and> truthy (location a) then Some (JStr (str_of (location a)))
        else if k = ''description'' \<and> truthy (description a)
          then Some (JStr (str_of (description a)))
        else if k = ''attendees'' \<and> truthy (attendees a)
          then Some (attendee_list (str_of (attendees a)))
        else if k = ''recurrence'' \<and> recurrence a \<noteq> []
          then Some (JArr (map JStr (recurrence a)))
        else dict_get b0 k)"
  by (simp add: optional_event_fields_def Let_def dict_get_dict_set)

lemma create_event_body_fields:
  assumes "truthy (summary a)" and "truthy (start a)" and "truthy (end_arg a)"
  shows "\<exists>b. create_event_body a = Inr (JObj b) \<and> distinct (dict_keys b)
             \<and> dict_get b = structured_fields a"
proof -
  let ?b0 = "[(''summary'', JStr (str_of (summary a))),
              (''start'', JObj (time_object (str_of (start a)) (time_zone a))),
              (''end'', JObj (time_object (str_of (end_arg a)) (time_zone a)))]"
  let ?b = "optional_event_fields a ?b0"
  have "create_event_body a = Inr (JObj ?b)"
    using assms by (rule create_event_body_given)
  moreover have "distinct (dict_keys ?b)"
    by (rule optional_event_fields_distinct) (simp add: dict_keys_def)
  moreover have "dict_get ?b k = structured_fields a k" for k
    unfolding optional_event_fields_get structured_fields_def
    using assms by (simp add: dict_get_def)
  then have "dict_get ?b = structured_fields a" by (rule ext)
  ultimately show ?thesis by blast
qed

lemma update_event_body_fields:
  "\<exists>b. update_event_body a = JObj b \<and> distinct (dict_keys b)
        \<and> dict_get b = structured_fields a"
proof -
  let ?b1 = "if truthy (summary a) then dict_set [] ''summary'' (JStr (str_of (summary a))) else []"
  let ?b2 = "if truthy (start a)
             then dict_set ?b1 ''start'' (JObj (time_object (str_of (start a)) (time_zone a)))
             else ?b1"
  let ?b3 = "if truthy (end_arg a)
             then dict_set ?b2 ''end'' (JObj (time_object (str_of (end_arg a)) (time_zone a)))
             else ?b2"
  let ?b = "optional_event_fields a ?b3"
  have "update_event_body a = JObj ?b"
    by (simp add: update_event_body_def Let_def)
  moreover have "distinct (dict_keys ?b3)"
    by (simp add: distinct_dict_set) (simp add: dict_keys_def)
  then have "distinct (dict_keys ?b)"
    by (rule optional_event_fields_distinct)
  moreover have required: "dict_get ?b3 k
      = (if k = ''summary'' \<and> truthy (summary a) then Some (JStr (str_of (summary a)))
         else if k = ''start'' \<and> truthy (start a)
           then Some (JObj (time_object (str_of (start a)) (time_zone a)))
         else if k = ''end'' \<and> truthy (end_arg a)
           then Some (JObj (time_object (str_of (end_arg a)) (time_zone a)))
         else None)" for k
    by (simp add: dict_get_dict_set) (simp add: dict_get_def)
  have "dict_get ?b k = structured_fields a k" for k
    unfolding optional_event_fields_get structured_fields_def required by simp
  then have "dict_get ?b = structured_fields a" by (rule ext)
  ultimately show ?thesis by blast
qed

lemma cmd_create_event_absent:
  assumes "session_from_token e (token a) (Some (scopes a)) w = (Inr sess, w1)"
    and "load_json_input e w1 (body a) (body_file a) = Inr JNull"
  shows "if truthy (summary a) \<and> truthy (start a) \<and> truthy (end_arg a)
         then (\<exists>b. distinct (dict_keys b) \<and> dict_get b = structured_fields a
                 \<and> cmd_create_event e a w
                     = request e sess ''POST'' (''/calendars/'' @ calendar_id a @ ''/events'')
                         (send_updates_params a) (JObj b) CALENDAR_BASE_URL w1)
         else cmd_create_event e a w = (Inl (ValueError required_msg), w1)"
proof (cases "truthy (summary a) \<and> truthy (start a) \<and> truthy (end_arg a)")
  case True
  then obtain b where "create_event_body a = Inr (JObj b)" "distinct (dict_keys b)"
      "dict_get b = structured_fields a"
    using create_event_body_fields [of a] by blast
  then have "\<exists>b. distinct (dict_keys b) \<and> dict_get b = structured_fields a
                 \<and> cmd_create_event e a w
                     = request e sess ''POST'' (''/calendars/'' @ calendar_id a @ ''/events'')
                         (send_updates_params a) (JObj b) CALENDAR_BASE_URL w1"
    by (auto simp: cmd_create_event_assembles [OF assms])
  then show ?thesis
    by (simp only: if_P [OF True])
next
  case False
  then have "create_event_body a = Inl (ValueError required_msg)"
    by (intro create_event_body_missing) blast
  then have "cmd_create_event e a w = (Inl (ValueError required_msg), w1)"
    by (simp add: cmd_create_event_assembles [OF assms])
  then show ?thesis
    by (simp only: if_not_P [OF False])
qed

lemma cmd_update_event_absent:
  assumes "session_from_token e (token a) (Some (scopes a)) w = (Inr sess, w1)"
    and "load_json_input e w1 (body a) (body_file a) = Inr JNull"
  shows "\<exists>b. distinct (dict_keys b) \<and> dict_get b = structured_fields a
           \<and> cmd_update_event e a w
               = (if b = [] then (Inl (ValueError update_msg), w1)
                  else request e sess ''PATCH''
                         (''/calendars/'' @ calendar_id a @ ''/events/'' @ event_id a)
                         (send_updates_params a) (JObj b) CALENDAR_BASE_URL w1)"
proof -
  obtain b where b: "update_event_body a = JObj b" "distinct (dict_keys b)"
      "dict_get b = structured_fields a"
    using update_event_body_fields [of a] by blast
  have "cmd_update_event e a w
          = (if b = [] then (Inl (ValueError update_msg), w1)
             else request e sess ''PATCH''
                    (''/calendars/'' @ calendar_id a @ ''/events/'' @ event_id a)
                    (send_updates_params a) (JObj b) CALENDAR_BASE_URL w1)"
    using assms by (simp add: cmd_update_event_def b(1))
  with b show ?thesis by blast
qed

lemma cmd_create_event_given:
  assumes "session_from_token e (token a) (Some (scopes a)) w = (Inr sess, w1)"
    and "load_json_input e w1 (body a) (body_file a) = Inr loaded"
    and "loaded \<noteq> JNull"
  shows "cmd_create_event e a w
           = request e sess ''POST'' (''/calendars/'' @ calendar_id a @ ''/events'')
               (send_updates_params a) loaded CALENDAR_BASE_URL w1"
  using assms by (simp add: cmd_create_event_def)

lemma cmd_update_event_given:
  assumes "session_from_token e (token a) (Some (scopes a)) w = (Inr sess, w1)"
    and "load_json_input e w1 (body a) (body_file a) = Inr loaded"
    and "loaded \<noteq> JNull"
  shows "cmd_update_event e a w
           = (if py_truthy loaded
              then request e sess ''PATCH''
                     (''/calendars/'' @ calendar_id a @ ''/events/'' @ event_id a)
                     (send_updates_params a) loaded CALENDAR_BASE_URL w1
              else (Inl (ValueError update_msg), w1))"
  using assms by (simp add: cmd_update_event_def)

lemma demo_token_loads:
  "token a = ''token.json''
   \<Longrightarrow> session_from_token demo_env (token a) (Some (scopes a)) (world_with ''valid'')
         = (Inr (AuthorizedSession valid_creds), world_with ''valid'')"
  by (simp add: session_from_token_def load_credentials_def demo_env_def world_with_def
        valid_creds_def)

lemma cmd_update_event_assembles:
  assumes "session_from_token e (token a) (Some (scopes a)) w = (Inr sess, w1)"
    and "load_json_input e w1 (body a) (body_file a) = Inr JNull"
  shows "cmd_update_event e a w
     = (if \<not> py_truthy (update_event_body a) then (Inl (ValueError update_msg), w1)
        else request e sess ''PATCH''
               (''/calendars/'' @ calendar_id a @ ''/events/'' @ event_id a)
               (send_updates_params a) (update_event_body a) CALENDAR_BASE_URL w1)"
  using assms by (simp add: cmd_update_event_def)

lemma fields_without_body:
  "optional_event_fields (a\<lparr>body := x, body_file := y\<rparr>) b = optional_event_fields a b"
  "create_event_body (a\<lparr>body := x, body_file := y\<rparr>) = create_event_body a"
  "update_event_body (a\<lparr>body := x, body_file := y\<rparr>) = update_event_body a"
  "send_updates_params (a\<lparr>body := x, body_file := y\<rparr>) = send_updates_params a"
  by (simp_all add: create_event_body_def update_event_body_def optional_event_fields_def
        send_updates_params_def Let_def)

text \<open>
  \<^const>\<open>cmd_create_event\<close> loads the token before it resolves the body (lines 167--168).
  Given both an inline body and a body file: with a credential that is expired and has a
  refresh token, the refresh goes out and the token file is rewritten before the usage
  error is raised; with no token file, the command reports the missing file and never
  reaches the resolver.
\<close>

theorem C4_token_first_counterexample:
  "fst (cmd_create_event demo_env (no_args\<lparr>body := Some ''{}'', body_file := Some ''body.json''\<rparr>)
          (world_with ''renewable''))
     = Inl (ValueError conflict_msg)
   \<and> network (snd (cmd_create_event demo_env
                       (no_args\<lparr>body := Some ''{}'', body_file := Some ''body.json''\<rparr>)
                       (world_with ''renewable'')))
       = [TokenRefresh renewable_creds]
   \<and> files (world_with ''renewable'') ''token.json'' = Some ''renewable''
   \<and> files (snd (cmd_create_event demo_env
                     (no_args\<lparr>body := Some ''{}'', body_file := Some ''body.json''\<rparr>)
                     (world_with ''renewable''))) ''token.json''
       = Some ''valid''
   \<and> cmd_create_event demo_env (no_args\<lparr>body := Some ''{}'', body_file := Some ''body.json''\<rparr>)
         \<lparr>files = Map.empty, network = []\<rparr>
       = (Inl (FileNotFoundError ''token.json''), \<lparr>files = Map.empty, network = []\<rparr>)"
  by (simp add: cmd_create_event_def session_from_token_def load_credentials_def
        load_json_input_def demo_env_def no_args_def world_with_def renewable_creds_def
        truthy_def)

text \<open>
  Claim C4, as the code has it. Given an inline JSON string and a file path, both
  non-empty, \<^const>\<open>load_json_input\<close> fails with the usage error of line 20, whatever the
  parser and whatever the files hold (so also when both contents would parse to the same
  value). \<^const>\<open>cmd_call\<close> resolves its inputs before it loads the token: it fails with
  the world as it was, so with no network call. \<^const>\<open>cmd_create_event\<close> and
  \<^const>\<open>cmd_update_event\<close> load the token first: a failed load is what they report, and
  after a load that succeeds they fail with the usage error in the world the load left;
  at most one token refresh, and no API request, has then gone out.
\<close>

theorem C4_conflicting_sources:
  assumes "raw \<noteq> []" and "pth \<noteq> []"
  shows "load_json_input e w (Some raw) (Some pth) = Inl (ValueError conflict_msg)
    \<and> cmd_call e (a\<lparr>params := Some raw, params_file := Some pth\<rparr>) w
        = (Inl (ValueError conflict_msg), w)
    \<and> cmd_call e (a\<lparr>body := Some raw, body_file := Some pth\<rparr>) w
        = (case load_json_input e w (params a) (params_file a) of
             Inl err \<Rightarrow> (Inl err, w)
           | Inr prms \<Rightarrow> (Inl (ValueError conflict_msg), w))
    \<and> cmd_create_event e (a\<lparr>body := Some raw, body_file := Some pth\<rparr>) w
        = (case session_from_token e (token a) (Some (scopes a)) w of
             (Inl err, w1) \<Rightarrow> (Inl err, w1)
           | (Inr sess, w1) \<Rightarrow> (Inl (ValueError conflict_msg), w1))
    \<and> cmd_update_event e (a\<lparr>body := Some raw, body_file := Some pth\<rparr>) w
        = (case session_from_token e (token a) (Some (scopes a)) w of
             (Inl err, w1) \<Rightarrow> (Inl err, w1)
           | (Inr sess, w1) \<Rightarrow> (Inl (ValueError conflict_msg), w1))
    \<and> (network (snd (session_from_token e (token a) (Some (scopes a)) w)) = network w
         \<or> (\<exists>c. network (snd (session_from_token e (token a) (Some (scopes a)) w))
                  = network w @ [TokenRefresh c]))"
proof -
  have conflict: "load_json_input e w' (Some raw) (Some pth) = Inl (ValueError conflict_msg)"
    for w'
    using assms by (simp add: load_json_input_def truthy_def)
  have call_params: "cmd_call e (a\<lparr>params := Some raw, params_file := Some pth\<rparr>) w
                       = (Inl (ValueError conflict_msg), w)"
    by (simp add: cmd_call_def conflict)
  have call_body: "cmd_call e (a\<lparr>body := Some raw, body_file := Some pth\<rparr>) w
        = (case load_json_input e w (params a) (params_file a) of
             Inl err \<Rightarrow> (Inl err, w)
           | Inr prms \<Rightarrow> (Inl (ValueError conflict_msg), w))"
    by (simp add: cmd_call_def conflict split: sum.splits)
  have create: "cmd_create_event e (a\<lparr>body := Some raw, body_file := Some pth\<rparr>) w
        = (case session_from_token e (token a) (Some (scopes a)) w of
             (Inl err, w1) \<Rightarrow> (Inl err, w1)
           | (Inr sess, w1) \<Rightarrow> (Inl (ValueError conflict_msg), w1))"
    by (simp add: cmd_create_event_def conflict split: prod.splits sum.splits)
  have update: "cmd_update_event e (a\<lparr>body := Some raw, body_file := Some pth\<rparr>) w
        = (case session_from_token e (token a) (Some (scopes a)) w of
             (Inl err, w1) \<Rightarrow> (Inl err, w1)
           | (Inr sess, w1) \<Rightarrow> (Inl (ValueError conflict_msg), w1))"
    by (simp add: cmd_update_event_def conflict split: prod.splits sum.splits)
  have net: "network (snd (session_from_token e (token a) (Some (scopes a)) w)) = network w
         \<or> (\<exists>c. network (snd (session_from_token e (token a) (Some (scopes a)) w))
                  = network w @ [TokenRefresh c])"
    by (rule session_from_token_network [of e "token a" "Some (scopes a)" w
          "fst (session_from_token e (token a) (Some (scopes a)) w)"]) simp
  from conflict call_params call_body create update net show ?thesis
    by blast
qed

theorem C4_conflicting_sources_witness:
  "''{}'' \<noteq> [] \<and> ''body.json'' \<noteq> []
   \<and> load_json_input demo_env (world_with ''valid'') (Some ''{}'') (Some ''body.json'')
       = Inl (ValueError conflict_msg)
   \<and> cmd_call demo_env (no_args\<lparr>params := Some ''{}'', params_file := Some ''body.json''\<rparr>)
         (world_with ''valid'')
       = (Inl (ValueError conflict_msg), world_with ''valid'')
   \<and> cmd_call demo_env (no_args\<lparr>body := Some ''{}'', body_file := Some ''body.json''\<rparr>)
         (world_with ''valid'')
       = (Inl (ValueError conflict_msg), world_with ''valid'')
   \<and> cmd_create_event demo_env (no_args\<lparr>body := Some ''{}'', body_file := Some ''body.json''\<rparr>)
         (world_with ''valid'')
       = (Inl (ValueError conflict_msg), world_with ''valid'')
   \<and> cmd_update_event demo_env (no_args\<lparr>body := Some ''{}'', body_file := Some ''body.json''\<rparr>)
         (world_with ''valid'')
       = (Inl (ValueError conflict_msg), world_with ''valid'')"
proof -
  have ne: "''{}'' \<noteq> []" "''body.json'' \<noteq> []"
    by simp_all
  have tok: "session_from_token demo_env (token no_args) (Some (scopes no_args))
               (world_with ''valid'')
             = (Inr (AuthorizedSession valid_creds), world_with ''valid'')"
    by (rule demo_token_loads) (simp add: no_args_def)
  have prm: "load_json_input demo_env (world_with ''valid'') (params no_args) (params_file no_args)
             = Inr JNull"
    by (simp add: load_json_input_def no_args_def truthy_def)
  from C4_conflicting_sources [OF ne, of demo_env "world_with ''valid''" no_args]
  show ?thesis by (simp add: tok prm)
qed

text \<open>
  \<^const>\<open>cmd_update_event\<close> with the inline body \<^verbatim>\<open>{}\<close>: the resolver returns the empty
  object, the structured fields that are given (a summary among them) are not assembled,
  and the empty object is not sent as the body: line 211 refuses it and no request goes
  out.
\<close>

theorem C5_update_refuses_empty_object_counterexample:
  "load_json_input demo_env (world_with ''valid'') (Some ''{}'') None = Inr (JObj [])
   \<and> truthy (summary (standup_args\<lparr>body := Some ''{}''\<rparr>))
   \<and> cmd_update_event demo_env (standup_args\<lparr>body := Some ''{}''\<rparr>) (world_with ''valid'')
       = (Inl (ValueError update_msg), world_with ''valid'')"
  by (simp add: cmd_update_event_def session_from_token_def load_credentials_def
        load_json_input_def demo_env_def demo_loads_def standup_args_def no_args_def
        world_with_def valid_creds_def truthy_def str_of_def)

text \<open>
  Claim C5, as the code has it. With neither an inline string nor a file path,
  \<^const>\<open>load_json_input\<close> returns the absent value (Python's \<^verbatim>\<open>None\<close>), which is not the
  empty object. Once the token is loaded, the commands assemble the body from the
  structured fields exactly when the resolver returned the absent value: the assembled
  body holds each given field once, under its fixed name (\<^const>\<open>structured_fields\<close>), and
  \<^const>\<open>cmd_create_event\<close> asks for summary, start and end while \<^const>\<open>cmd_update_event\<close>
  asks for at least one field. Any other value the resolver returns is never assembled
  over: \<^const>\<open>cmd_create_event\<close> sends it as the body as it is, the empty object included;
  \<^const>\<open>cmd_update_event\<close> sends it as it is unless Python reads it as false, as it does
  the empty object, which it refuses.
\<close>

theorem C5_absent_is_not_empty_object:
  assumes tok: "session_from_token e (token a) (Some (scopes a)) w = (Inr sess, w1)"
    and ld: "load_json_input e w1 (body a) (body_file a) = Inr loaded"
  shows "load_json_input e w None None = Inr JNull
    \<and> JNull \<noteq> JObj []
    \<and> (loaded \<noteq> JNull
          \<longrightarrow> cmd_create_event e a w
                = request e sess ''POST'' (''/calendars/'' @ calendar_id a @ ''/events'')
                    (send_updates_params a) loaded CALENDAR_BASE_URL w1)
    \<and> (loaded \<noteq> JNull
          \<longrightarrow> cmd_update_event e a w
                = (if py_truthy loaded
                   then request e sess ''PATCH''
                          (''/calendars/'' @ calendar_id a @ ''/events/'' @ event_id a)
                          (send_updates_params a) loaded CALENDAR_BASE_URL w1
                   else (Inl (ValueError update_msg), w1)))
    \<and> (loaded = JNull
          \<longrightarrow> (if truthy (summary a) \<and> truthy (start a) \<and> truthy (end_arg a)
               then (\<exists>b. distinct (dict_keys b) \<and> dict_get b = structured_fields a
                       \<and> cmd_create_event e a w
                           = request e sess ''POST''
                               (''/calendars/'' @ calendar_id a @ ''/events'')
                               (send_updates_params a) (JObj b) CALENDAR_BASE_URL w1)
               else cmd_create_event e a w = (Inl (ValueError required_msg), w1)))
    \<and> (loaded = JNull
          \<longrightarrow> (\<exists>b. distinct (dict_keys b) \<and> dict_get b = structured_fields a
                  \<and> cmd_update_event e a w
                      = (if b = [] then (Inl (ValueError update_msg), w1)
                         else request e sess ''PATCH''
                                (''/calendars/'' @ calendar_id a @ ''/events/'' @ event_id a)
                                (send_updates_params a) (JObj b) CALENDAR_BASE_URL w1)))"
proof (intro conjI impI)
  show "load_json_input e w None None = Inr JNull"
    by (simp add: load_json_input_def truthy_def)
  show "JNull \<noteq> JObj []"
    by simp
next
  assume "loaded \<noteq> JNull"
  then show "cmd_create_event e a w
                = request e sess ''POST'' (''/calendars/'' @ calendar_id a @ ''/events'')
                    (send_updates_params a) loaded CALENDAR_BASE_URL w1"
    by (rule cmd_create_event_given [OF tok ld])
next
  assume "loaded \<noteq> JNull"
  then show "cmd_update_event e a w
                = (if py_truthy loaded
                   then request e sess ''PATCH''
                          (''/calendars/'' @ calendar_id a @ ''/events/'' @ event_id a)
                          (send_updates_params a) loaded CALENDAR_BASE_URL w1
                   else (Inl (ValueError update_msg), w1))"
    by (rule cmd_update_event_given [OF tok ld])
next
  assume "loaded = JNull"
  with ld have absent: "load_json_input e w1 (body a) (body_file a) = Inr JNull"
    by simp
  show "if truthy (summary a) \<and> truthy (start a) \<and> truthy (end_arg a)
        then (\<exists>b. distinct (dict_keys b) \<and> dict_get b = structured_fields a
                \<and> cmd_create_event e a w
                    = request e sess ''POST''
                        (''/calendars/'' @ calendar_id a @ ''/events'')
                        (send_updates_params a) (JObj b) CALENDAR_BASE_URL w1)
        else cmd_create_event e a w = (Inl (ValueError required_msg), w1)"
    by (rule cmd_create_event_absent [OF tok absent])
next
  assume "loaded = JNull"
  with ld have absent: "load_json_input e w1 (body a) (body_file a) = Inr JNull"
    by simp
  show "\<exists>b. distinct (dict_keys b) \<and> dict_get b = structured_fields a
           \<and> cmd_update_event e a w
               = (if b = [] then (Inl (ValueError update_msg), w1)
                  else request e sess ''PATCH''
                         (''/calendars/'' @ calendar_id a @ ''/events/'' @ event_id a)
                         (send_updates_params a) (JObj b) CALENDAR_BASE_URL w1)"
    by (rule cmd_update_event_absent [OF tok absent])
qed

theorem C5_absent_is_not_empty_object_witness:
  "session_from_token demo_env (token standup_args) (Some (scopes standup_args))
       (world_with ''valid'')
     = (Inr (AuthorizedSession valid_creds), world_with ''valid'')
   \<and> load_json_input demo_env (world_with ''valid'') (body standup_args) (body_file standup_args)
       = Inr JNull
   \<and> load_json_input demo_env (world_with ''valid'') (body (standup_args\<lparr>body := Some ''{}''\<rparr>))
        (body_file (standup_args\<lparr>body := Some ''{}''\<rparr>)) = Inr (JObj [])
   \<and> cmd_create_event demo_env (standup_args\<lparr>body := Some ''{}''\<rparr>) (world_with ''valid'')
       = request demo_env (AuthorizedSession valid_creds) ''POST'' ''/calendars/primary/events''
           JNull (JObj []) CALENDAR_BASE_URL (world_with ''valid'')
   \<and> cmd_update_event demo_env (standup_args\<lparr>body := Some ''{}''\<rparr>) (world_with ''valid'')
       = (Inl (ValueError update_msg), world_with ''valid'')
   \<and> (\<exists>b. dict_get b ''summary'' = Some (JStr ''Standup'')
          \<and> dict_get b ''location'' = Some (JStr ''Room 1'')
          \<and> dict_get b ''description'' = None
          \<and> cmd_create_event demo_env standup_args (world_with ''valid'')
              = request demo_env (AuthorizedSession valid_creds) ''POST''
                  ''/calendars/primary/events'' JNull (JObj b) CALENDAR_BASE_URL
                  (world_with ''valid''))
   \<and> (\<exists>b. dict_get b ''summary'' = Some (JStr ''Standup'')
          \<and> dict_get b ''location'' = Some (JStr ''Room 1'')
          \<and> dict_get b ''description'' = None
          \<and> cmd_update_event demo_env standup_args (world_with ''valid'')
              = request demo_env (AuthorizedSession valid_creds) ''PATCH''
                  ''/calendars/primary/events/ev1'' JNull (JObj b) CALENDAR_BASE_URL
                  (world_with ''valid''))"
proof -
  let ?a = "standup_args\<lparr>body := Some ''{}''\<rparr>"
  let ?w = "world_with ''valid''"
  have tok: "session_from_token demo_env (token standup_args) (Some (scopes standup_args)) ?w
               = (Inr (AuthorizedSession valid_creds), ?w)"
    by (rule demo_token_loads) (simp add: standup_args_def no_args_def)
  have tok': "session_from_token demo_env (token ?a) (Some (scopes ?a)) ?w
                = (Inr (AuthorizedSession valid_creds), ?w)"
    by (rule demo_token_loads) (simp add: standup_args_def no_args_def)
  have ld: "load_json_input demo_env ?w (body standup_args) (body_file standup_args) = Inr JNull"
    by (simp add: load_json_input_def standup_args_def no_args_def truthy_def)
  have ld': "load_json_input demo_env ?w (body ?a) (body_file ?a) = Inr (JObj [])"
    by (simp add: load_json_input_def demo_env_def demo_loads_def standup_args_def no_args_def
          truthy_def str_of_def)
  have misc: "calendar_id standup_args = ''primary''" "event_id standup_args = ''ev1''"
    "send_updates_params standup_args = JNull"
    "calendar_id ?a = ''primary''" "event_id ?a = ''ev1''" "send_updates_params ?a = JNull"
    by (simp_all add: standup_args_def no_args_def send_updates_params_def truthy_def)
  have given: "truthy (summary standup_args) \<and> truthy (start standup_args)
                 \<and> truthy (end_arg standup_args)"
    by (simp add: standup_args_def no_args_def truthy_def)
  have fields: "structured_fields standup_args ''summary'' = Some (JStr ''Standup'')"
    "structured_fields standup_args ''location'' = Some (JStr ''Room 1'')"
    "structured_fields standup_args ''description'' = None"
    by (simp_all add: structured_fields_def standup_args_def no_args_def truthy_def str_of_def)
  note override = C5_absent_is_not_empty_object [OF tok' ld']
  note absent = C5_absent_is_not_empty_object [OF tok ld]
  have create_override: "cmd_create_event demo_env ?a ?w
       = request demo_env (AuthorizedSession valid_creds) ''POST'' ''/calendars/primary/events''
           JNull (JObj []) CALENDAR_BASE_URL ?w"
    using override by (simp add: misc)
  have update_override: "cmd_update_event demo_env ?a ?w = (Inl (ValueError update_msg), ?w)"
    using override by (simp add: misc)
  obtain c where c: "dict_get c = structured_fields standup_args"
    "cmd_create_event demo_env standup_args ?w
       = request demo_env (AuthorizedSession valid_creds) ''POST''
           ''/calendars/primary/events'' JNull (JObj c) CALENDAR_BASE_URL ?w"
    using absent given by (auto simp: misc)
  have create_absent: "\<exists>b. dict_get b ''summary'' = Some (JStr ''Standup'')
          \<and> dict_get b ''location'' = Some (JStr ''Room 1'')
          \<and> dict_get b ''description'' = None
          \<and> cmd_create_event demo_env standup_args ?w
              = request demo_env (AuthorizedSession valid_creds) ''POST''
                  ''/calendars/primary/events'' JNull (JObj b) CALENDAR_BASE_URL ?w"
    by (intro exI [of _ c]) (simp add: c fields)
  obtain b where b: "dict_get b = structured_fields standup_args"
    "cmd_update_event demo_env standup_args ?w
       = (if b = [] then (Inl (ValueError update_msg), ?w)
          else request demo_env (AuthorizedSession valid_creds) ''PATCH''
                 ''/calendars/primary/events/ev1'' JNull (JObj b) CALENDAR_BASE_URL ?w)"
    using absent by (auto simp: misc)
  have "dict_get b ''summary'' = Some (JStr ''Standup'')"
    by (simp add: b(1) fields)
  then have "b \<noteq> []"
    by (auto simp: dict_get_def)
  then have update_absent: "\<exists>b. dict_get b ''summary'' = Some (JStr ''Standup'')
          \<and> dict_get b ''location'' = Some (JStr ''Room 1'')
          \<and> dict_get b ''description'' = None
          \<and> cmd_update_event demo_env standup_args ?w
              = request demo_env (AuthorizedSession valid_creds) ''PATCH''
                  ''/calendars/primary/events/ev1'' JNull (JObj b) CALENDAR_BASE_URL ?w"
    by (intro exI [of _ b]) (simp add: b fields)
  from tok ld ld' create_override update_override create_absent update_absent
  show ?thesis by blast
qed

text \<open>
  Claim C10. An inline string or a file content that parses to the JSON value
  \<^verbatim>\<open>null\<close> makes \<^const>\<open>load_json_input\<close> return what it returns when no_field is
  supplied. So, once the token is loaded, \<^const>\<open>cmd_create_event\<close> and
  \<^const>\<open>cmd_update_event\<close> fall back to the structured fields although a body was given:
  creation fails with the required-fields error unless summary, start and end are given,
  and otherwise sends the body assembled from the given fields
  (\<^const>\<open>structured_fields\<close>); update fails with the no-fields error when no field is
  given, and otherwise sends the body assembled from the given fields. Both run exactly
  as they do with no body and no body file.
\<close>

theorem C10_null_is_absent:
  assumes null: "json_loads e txt = Inr JNull"
  shows "load_json_input e w' None None = Inr JNull
    \<and> (txt \<noteq> [] \<longrightarrow> load_json_input e w' (Some txt) None = load_json_input e w' None None)
    \<and> (pth' \<noteq> [] \<and> files w' pth' = Some txt
          \<longrightarrow> load_json_input e w' None (Some pth') = load_json_input e w' None None)
    \<and> (session_from_token e (token a) (Some (scopes a)) w = (Inr sess, wt)
        \<and> (body a = Some txt \<and> txt \<noteq> [] \<and> \<not> truthy (body_file a)
            \<or> \<not> truthy (body a) \<and> body_file a = Some pth \<and> pth \<noteq> []
                \<and> files wt pth = Some txt)
        \<longrightarrow> (if truthy (summary a) \<and> truthy (start a) \<and> truthy (end_arg a)
             then (\<exists>b. distinct (dict_keys b) \<and> dict_get b = structured_fields a
                     \<and> cmd_create_event e a w
                         = request e sess ''POST''
                             (''/calendars/'' @ calendar_id a @ ''/events'')
                             (send_updates_params a) (JObj b) CALENDAR_BASE_URL wt)
             else cmd_create_event e a w = (Inl (ValueError required_msg), wt))
          \<and> (\<exists>b. distinct (dict_keys b) \<and> dict_get b = structured_fields a
                  \<and> cmd_update_event e a w
                      = (if b = [] then (Inl (ValueError update_msg), wt)
                         else request e sess ''PATCH''
                                (''/calendars/'' @ calendar_id a @ ''/events/'' @ event_id a)
                                (send_updates_params a) (JObj b) CALENDAR_BASE_URL wt))
          \<and> cmd_create_event e a w = cmd_create_event e (a\<lparr>body := None, body_file := None\<rparr>) w
          \<and> cmd_update_event e a w = cmd_update_event e (a\<lparr>body := None, body_file := None\<rparr>) w)"
proof (intro conjI impI)
  show absent: "load_json_input e w' None None = Inr JNull" for w'
    by (simp add: load_json_input_def truthy_def)
  show "load_json_input e w' (Some txt) None = load_json_input e w' None None" if "txt \<noteq> []"
    using that null by (simp add: load_json_input_def truthy_def str_of_def)
  show "load_json_input e w' None (Some pth') = load_json_input e w' None None"
    if "pth' \<noteq> [] \<and> files w' pth' = Some txt"
    using that null by (simp add: load_json_input_def truthy_def str_of_def)
  assume run: "session_from_token e (token a) (Some (scopes a)) w = (Inr sess, wt)
        \<and> (body a = Some txt \<and> txt \<noteq> [] \<and> \<not> truthy (body_file a)
            \<or> \<not> truthy (body a) \<and> body_file a = Some pth \<and> pth \<noteq> []
                \<and> files wt pth = Some txt)"
  let ?n = "a\<lparr>body := None, body_file := None\<rparr>"
  from run have tok: "session_from_token e (token a) (Some (scopes a)) w = (Inr sess, wt)"
    by blast
  from run null have ld: "load_json_input e wt (body a) (body_file a) = Inr JNull"
    by (auto simp: load_json_input_def truthy_def str_of_def)
  have tok_n: "session_from_token e (token ?n) (Some (scopes ?n)) w = (Inr sess, wt)"
    using tok by simp
  have ld_n: "load_json_input e wt (body ?n) (body_file ?n) = Inr JNull"
    by (simp add: absent)
  show "if truthy (summary a) \<and> truthy (start a) \<and> truthy (end_arg a)
        then (\<exists>b. distinct (dict_keys b) \<and> dict_get b = structured_fields a
                \<and> cmd_create_event e a w
                    = request e sess ''POST''
                        (''/calendars/'' @ calendar_id a @ ''/events'')
                        (send_updates_params a) (JObj b) CALENDAR_BASE_URL wt)
        else cmd_create_event e a w = (Inl (ValueError required_msg), wt)"
    by (rule cmd_create_event_absent [OF tok ld])
  show "\<exists>b. distinct (dict_keys b) \<and> dict_get b = structured_fields a
           \<and> cmd_update_event e a w
               = (if b = [] then (Inl (ValueError update_msg), wt)
                  else request e sess ''PATCH''
                         (''/calendars/'' @ calendar_id a @ ''/events/'' @ event_id a)
                         (send_updates_params a) (JObj b) CALENDAR_BASE_URL wt)"
    by (rule cmd_update_event_absent [OF tok ld])
  show "cmd_create_event e a w = cmd_create_event e ?n w"
    unfolding cmd_create_event_assembles [OF tok ld] cmd_create_event_assembles [OF tok_n ld_n]
    by (simp add: fields_without_body cong: sum.case_cong)
  show "cmd_update_event e a w = cmd_update_event e ?n w"
    unfolding cmd_update_event_assembles [OF tok ld] cmd_update_event_assembles [OF tok_n ld_n]
    by (simp add: fields_without_body cong: if_cong)
qed

theorem C10_null_is_absent_witness:
  "json_loads demo_env ''null'' = Inr JNull
   \<and> load_json_input demo_env (world_with ''valid'') (Some ''null'') None = Inr JNull
   \<and> load_json_input demo_env
        ((world_with ''valid'')\<lparr>files := (files (world_with ''valid''))(''body.json'' \<mapsto> ''null'')\<rparr>)
        None (Some ''body.json'') = Inr JNull
   \<and> session_from_token demo_env (token (standup_args\<lparr>body := Some ''null''\<rparr>))
        (Some (scopes (standup_args\<lparr>body := Some ''null''\<rparr>))) (world_with ''valid'')
       = (Inr (AuthorizedSession valid_creds), world_with ''valid'')
   \<and> (\<exists>b. dict_get b ''summary'' = Some (JStr ''Standup'')
          \<and> dict_get b ''location'' = Some (JStr ''Room 1'')
          \<and> cmd_create_event demo_env (standup_args\<lparr>body := Some ''null''\<rparr>) (world_with ''valid'')
              = request demo_env (AuthorizedSession valid_creds) ''POST''
                  ''/calendars/primary/events'' JNull (JObj b) CALENDAR_BASE_URL
                  (world_with ''valid''))
   \<and> (\<exists>b. dict_get b ''summary'' = Some (JStr ''Standup'')
          \<and> dict_get b ''location'' = Some (JStr ''Room 1'')
          \<and> cmd_update_event demo_env (standup_args\<lparr>body := Some ''null''\<rparr>) (world_with ''valid'')
              = request demo_env (AuthorizedSession valid_creds) ''PATCH''
                  ''/calendars/primary/events/ev1'' JNull (JObj b) CALENDAR_BASE_URL
                  (world_with ''valid''))
   \<and> cmd_create_event demo_env (no_args\<lparr>body := Some ''null''\<rparr>) (world_with ''valid'')
       = (Inl (ValueError required_msg), world_with ''valid'')
   \<and> cmd_update_event demo_env (no_args\<lparr>body := Some ''null''\<rparr>) (world_with ''valid'')
       = (Inl (ValueError update_msg), world_with ''valid'')"
proof -
  let ?a = "standup_args\<lparr>body := Some ''null''\<rparr>"
  let ?z = "no_args\<lparr>body := Some ''null''\<rparr>"
  let ?w = "world_with ''valid''"
  let ?f = "?w\<lparr>files := (files ?w)(''body.json'' \<mapsto> ''null'')\<rparr>"
  have p: "json_loads demo_env ''null'' = Inr JNull"
    by (simp add: demo_env_def demo_loads_def)
  have tok: "session_from_token demo_env (token ?a) (Some (scopes ?a)) ?w
               = (Inr (AuthorizedSession valid_creds), ?w)"
    by (rule demo_token_loads) (simp add: standup_args_def no_args_def)
  have tok_z: "session_from_token demo_env (token ?z) (Some (scopes ?z)) ?w
                 = (Inr (AuthorizedSession valid_creds), ?w)"
    by (rule demo_token_loads) (simp add: no_args_def)
  have src: "body ?a = Some ''null'' \<and> ''null'' \<noteq> [] \<and> \<not> truthy (body_file ?a)"
    "body ?z = Some ''null'' \<and> ''null'' \<noteq> [] \<and> \<not> truthy (body_file ?z)"
    by (simp_all add: standup_args_def no_args_def truthy_def)
  have on_disk: "''body.json'' \<noteq> [] \<and> files ?f ''body.json'' = Some ''null''"
    by simp
  have misc: "calendar_id ?a = ''primary''" "event_id ?a = ''ev1''" "send_updates_params ?a = JNull"
    by (simp_all add: standup_args_def no_args_def send_updates_params_def truthy_def)
  have given: "truthy (summary ?a) \<and> truthy (start ?a) \<and> truthy (end_arg ?a)"
    by (simp add: standup_args_def no_args_def truthy_def)
  have missing: "\<not> (truthy (summary ?z) \<and> truthy (start ?z) \<and> truthy (end_arg ?z))"
    by (simp add: no_args_def truthy_def)
  have fields: "structured_fields ?a ''summary'' = Some (JStr ''Standup'')"
    "structured_fields ?a ''location'' = Some (JStr ''Room 1'')"
    by (simp_all add: structured_fields_def standup_args_def no_args_def truthy_def str_of_def)
  have no_field: "structured_fields ?z k = None" for k
    by (simp add: structured_fields_def no_args_def truthy_def)
  note std = C10_null_is_absent [OF p, where a = ?a and w = ?w and wt = ?w
               and sess = "AuthorizedSession valid_creds"]
  note none = C10_null_is_absent [OF p, where a = ?z and w = ?w and wt = ?w
               and sess = "AuthorizedSession valid_creds"]
  have inline: "load_json_input demo_env ?w (Some ''null'') None = Inr JNull"
    using std [where w' = ?w] by simp
  have from_file: "load_json_input demo_env ?f None (Some ''body.json'') = Inr JNull"
    using std [where w' = ?f and pth' = "''body.json''"] on_disk by simp
  note std_run = std [THEN conjunct2, THEN conjunct2, THEN conjunct2, rule_format,
                      OF conjI [OF tok disjI1 [OF src(1)]]]
  note none_run = none [THEN conjunct2, THEN conjunct2, THEN conjunct2, rule_format,
                        OF conjI [OF tok_z disjI1 [OF src(2)]]]
  have "\<exists>b. distinct (dict_keys b) \<and> dict_get b = structured_fields ?a
          \<and> cmd_create_event demo_env ?a ?w
              = request demo_env (AuthorizedSession valid_creds) ''POST''
                  (''/calendars/'' @ calendar_id ?a @ ''/events'')
                  (send_updates_params ?a) (JObj b) CALENDAR_BASE_URL ?w"
    using std_run [THEN conjunct1] by (simp only: if_P [OF given])
  then obtain c where c: "dict_get c = structured_fields ?a"
    "cmd_create_event demo_env ?a ?w
       = request demo_env (AuthorizedSession valid_creds) ''POST''
           (''/calendars/'' @ calendar_id ?a @ ''/events'')
           (send_updates_params ?a) (JObj c) CALENDAR_BASE_URL ?w"
    by blast
  have create: "\<exists>b. dict_get b ''summary'' = Some (JStr ''Standup'')
          \<and> dict_get b ''location'' = Some (JStr ''Room 1'')
          \<and> cmd_create_event demo_env ?a ?w
              = request demo_env (AuthorizedSession valid_creds) ''POST''
                  ''/calendars/primary/events'' JNull (JObj b) CALENDAR_BASE_URL ?w"
    by (intro exI [of _ c]) (simp add: c fields misc)
  obtain b where b: "dict_get b = structured_fields ?a"
    "cmd_update_event demo_env ?a ?w
       = (if b = [] then (Inl (ValueError update_msg), ?w)
          else request demo_env (AuthorizedSession valid_creds) ''PATCH''
                 (''/calendars/'' @ calendar_id ?a @ ''/events/'' @ event_id ?a)
                 (send_updates_params ?a) (JObj b) CALENDAR_BASE_URL ?w)"
    using std_run [THEN conjunct2, THEN conjunct1] by blast
  have "dict_get b ''summary'' = Some (JStr ''Standup'')"
    by (simp add: b(1) fields)
  then have "b \<noteq> []"
    by (auto simp: dict_get_def)
  then have update: "\<exists>b. dict_get b ''summary'' = Some (JStr ''Standup'')
          \<and> dict_get b ''location'' = Some (JStr ''Room 1'')
          \<and> cmd_update_event demo_env ?a ?w
              = request demo_env (AuthorizedSession valid_creds) ''PATCH''
                  ''/calendars/primary/events/ev1'' JNull (JObj b) CALENDAR_BASE_URL ?w"
    by (intro exI [of _ b]) (simp add: b fields misc)
  have create_none: "cmd_create_event demo_env ?z ?w = (Inl (ValueError required_msg), ?w)"
    using none_run [THEN conjunct1] by (simp only: if_not_P [OF missing])
  obtain d where d: "dict_get d = structured_fields ?z"
    "cmd_update_event demo_env ?z ?w
       = (if d = [] then (Inl (ValueError update_msg), ?w)
          else request demo_env (AuthorizedSession valid_creds) ''PATCH''
                 (''/calendars/'' @ calendar_id ?z @ ''/events/'' @ event_id ?z)
                 (send_updates_params ?z) (JObj d) CALENDAR_BASE_URL ?w)"
    using none_run [THEN conjunct2, THEN conjunct1] by blast
  have none_at: "dict_get d k = None" for k
    by (simp only: d(1) no_field)
  have "d = []"
  proof (cases d)
    case Nil
    then show ?thesis .
  next
    case (Cons kv rest)
    with none_at [of "fst kv"] show ?thesis
      by (simp add: dict_get_def)
  qed
  with d(2) have update_none: "cmd_update_event demo_env ?z ?w = (Inl (ValueError update_msg), ?w)"
    by simp
  from p inline from_file tok create update create_none update_none
  show ?thesis by blast
qed

end
